theory Spec2Isabelle
  imports Main "HOL-Library.Product_Lexorder"
begin

section \<open>The coffee-fortune handler \<open>processCoffeeWithGemini\<close>\<close>

text \<open>
  The development embeds the handler of \<^verbatim>\<open>src/functions/src/index.ts\<close> (the current
  version, with \<^verbatim>\<open>GEMINI_MODEL\<close> and \<^verbatim>\<open>PROMPT_FINE_TUNE\<close>). The handler is an
  asynchronous function whose steps run strictly one after another, so it is modelled as
  a pure function from the triggering event and a \<^emph>\<open>world\<close> (the answers of everything
  outside the handler: environment, clock, object storage, AI service, datastore) to the
  ordered list of external calls it makes and the way its promise settles.

  Strings are \<^typ>\<open>string\<close>; the non-ASCII letters of the Turkish literals are written as
  their UTF-8 bytes. Calls to \<^verbatim>\<open>logger\<close> are not part of the modelled effects.
\<close>

subsection \<open>Values\<close>

text \<open>Values the handler stores in the datastore: strings and nested objects.\<close>

datatype fsval = VStr string | VObj "(string \<times> fsval) list"

text \<open>JavaScript truthiness of an optional string field (absent, \<^verbatim>\<open>null\<close> and
  \<^verbatim>\<open>""\<close> are falsy) and of a stored value (an object is always truthy).\<close>

fun truthy :: "string option \<Rightarrow> bool" where
  "truthy None = False"
| "truthy (Some s) = (s \<noteq> [])"

fun truthyVal :: "fsval option \<Rightarrow> bool" where
  "truthyVal None = False"
| "truthyVal (Some (VStr s)) = (s \<noteq> [])"
| "truthyVal (Some (VObj fs)) = True"

text \<open>A JavaScript number as far as the handler needs it: an integer or \<^verbatim>\<open>NaN\<close>.\<close>

datatype jsnum = NaN | Num int

fun jsSub :: "jsnum \<Rightarrow> jsnum \<Rightarrow> jsnum" where
  "jsSub (Num a) (Num b) = Num (a - b)"
| "jsSub _ _ = NaN"

fun jsLt :: "jsnum \<Rightarrow> jsnum \<Rightarrow> bool" where
  "jsLt (Num a) (Num b) = (a < b)"
| "jsLt _ _ = False"

fun jsGt :: "jsnum \<Rightarrow> jsnum \<Rightarrow> bool" where
  "jsGt (Num a) (Num b) = (a > b)"
| "jsGt _ _ = False"

fun jsStrictEq :: "jsnum \<Rightarrow> jsnum \<Rightarrow> bool" where
  "jsStrictEq (Num a) (Num b) = (a = b)"
| "jsStrictEq _ _ = False"

text \<open>Decimal rendering of a number inside a template literal.\<close>

fun digitsOf :: "nat \<Rightarrow> string" where
  "digitsOf n =
     (if n < 10 then [''0123456789'' ! n]
      else digitsOf (n div 10) @ [''0123456789'' ! (n mod 10)])"

fun toStringNum :: "jsnum \<Rightarrow> string" where
  "toStringNum NaN = ''NaN''"
| "toStringNum (Num i) = (if i < 0 then ''-'' @ digitsOf (nat (- i)) else digitsOf (nat i))"

text \<open>\<^verbatim>\<open>Array.prototype.join\<close> on strings.\<close>

fun join :: "string \<Rightarrow> string list \<Rightarrow> string" where
  "join sep [] = []"
| "join sep [x] = x"
| "join sep (x # y # ys) = x @ sep @ join sep (y # ys)"

subsection \<open>The record, the event and the world\<close>

text \<open>The fields of a \<^verbatim>\<open>coffee\<close> document the handler reads. \<open>None\<close> is an absent
  (or \<^verbatim>\<open>null\<close>) field.\<close>

record coffee_data =
  userName :: "string option"
  userBirthday :: "string option"
  userRelationStatus :: "string option"
  userEmploymentStatus :: "string option"
  photoPaths :: "string list option"
  result :: "fsval option"

record event =
  data :: "coffee_data option"
  docId :: string

text \<open>A thrown value: an \<^verbatim>\<open>Error\<close> instance with its message, or anything else with
  its \<^verbatim>\<open>String(...)\<close> rendering.\<close>

datatype js_exn = JsError string | JsOther string

text \<open>The local calendar fields of a \<^verbatim>\<open>Date\<close>: \<^verbatim>\<open>getFullYear()\<close>,
  \<^verbatim>\<open>getMonth()\<close> (0 to 11) and \<^verbatim>\<open>getDate()\<close>.\<close>

record ymd =
  fullYear :: int
  month :: int
  date :: int

record uploaded_file =
  uri :: "string option"
  mimeType :: "string option"

text \<open>The parts of a generation request: a file registered with the AI service
  (\<^verbatim>\<open>createPartFromUri\<close>) or a text.\<close>

datatype part = FilePart string string | TextPart string

text \<open>
  The world. \<open>parseDate\<close> is \<^verbatim>\<open>new Date(s)\<close> (\<open>None\<close> is an Invalid Date),
  \<open>today\<close> is \<^verbatim>\<open>new Date()\<close> in the age computation, \<open>dateNow i\<close> is
  \<^verbatim>\<open>Date.now()\<close> in iteration \<open>i\<close> of the photo loop, \<open>toISOString n\<close> is
  \<^verbatim>\<open>new Date().toISOString()\<close> when the \<open>n\<close>-th datastore update of the invocation is
  built. \<open>storageBucket\<close> answers \<^verbatim>\<open>storage.bucket()\<close> (a thrown value when no
  default bucket is configured). \<open>download\<close>, \<open>upload\<close>, \<open>generateContent\<close> and
  \<open>dbUpdate\<close> answer the external calls: a thrown value, or the result. The text of a
  generation response is taken to be present.
\<close>

record world =
  GEMINI_API_KEY :: "string option"
  today :: ymd
  parseDate :: "string \<Rightarrow> ymd option"
  dateNow :: "nat \<Rightarrow> nat"
  tmpdir :: string
  toISOString :: "nat \<Rightarrow> string"
  storageBucket :: "js_exn option"
  download :: "nat \<Rightarrow> string \<Rightarrow> string \<Rightarrow> js_exn option"
  upload :: "nat \<Rightarrow> string \<Rightarrow> js_exn + uploaded_file"
  generateContent :: "string \<Rightarrow> part list \<Rightarrow> js_exn + string"
  dbUpdate :: "nat \<Rightarrow> string \<Rightarrow> (string \<times> fsval) list \<Rightarrow> js_exn option"

text \<open>The external calls of a run, in order, each with whether it succeeded.
  A deletion may throw as well; the handler catches that in place and only logs it, so
  its outcome is not recorded.\<close>

datatype effect =
    StorageDownload string string bool
  | FilesUpload string bool
  | GenerateContent string "part list" bool
  | UnlinkSync string
  | DocUpdate string "(string \<times> fsval) list" bool

text \<open>A run: the calls made and how the handler's promise settles (\<open>None\<close>: resolved).\<close>

record run =
  effects :: "effect list"
  rejected :: "js_exn option"

subsection \<open>Constants\<close>

definition GEMINI_MODEL :: string where
  "GEMINI_MODEL = ''gemini-2.5-flash''"

definition PROMPT_FINE_TUNE :: "string list" where
  "PROMPT_FINE_TUNE =
     [''Dil T'' @ [CHR 0xC3, CHR 0xBC] @ ''rk'' @ [CHR 0xC3, CHR 0xA7] @ ''e olsun.'']"

definition closingInstruction :: string where
  "closingInstruction = '' kahve fal'' @ [CHR 0xC4, CHR 0xB1] @ ''m'' @ [CHR 0xC4, CHR 0xB1]
     @ '' yorumla.''"

definition fallbackInstruction :: string where
  "fallbackInstruction = ''Kahve fal'' @ [CHR 0xC4, CHR 0xB1] @ ''m'' @ [CHR 0xC4, CHR 0xB1]
     @ '' yorumla.''"

subsection \<open>Age from the birthday\<close>

fun getFullYear :: "ymd option \<Rightarrow> jsnum" where
  "getFullYear None = NaN"
| "getFullYear (Some d) = Num (fullYear d)"

fun getMonth :: "ymd option \<Rightarrow> jsnum" where
  "getMonth None = NaN"
| "getMonth (Some d) = Num (month d)"

fun getDate :: "ymd option \<Rightarrow> jsnum" where
  "getDate None = NaN"
| "getDate (Some d) = Num (date d)"

text \<open>
  \<^verbatim>\<open>let userAge = null; if (userBirthday) { try { ... } catch { userAge = null } }\<close>.
  \<^verbatim>\<open>new Date(s)\<close> does not throw on a string, it yields an Invalid Date whose getters
  return \<^verbatim>\<open>NaN\<close>; the \<^verbatim>\<open>catch\<close> branch is therefore never taken.
\<close>

definition calcUserAge :: "world \<Rightarrow> string option \<Rightarrow> jsnum option" where
  "calcUserAge w birthday =
     (case birthday of
        None \<Rightarrow> None
      | Some s \<Rightarrow>
          if s = [] then None
          else
            (let birthDate = parseDate w s;
                 tday = Some (today w);
                 age = jsSub (getFullYear tday) (getFullYear birthDate);
                 monthDiff = jsSub (getMonth tday) (getMonth birthDate)
             in if jsLt monthDiff (Num 0) \<or>
                   (jsStrictEq monthDiff (Num 0) \<and> jsLt (getDate tday) (getDate birthDate))
                then Some (jsSub age (Num 1))
                else Some age))"

subsection \<open>The prompt\<close>

text \<open>The four conditional \<^verbatim>\<open>chunks.push\<close> statements, in source order.\<close>

definition pushName :: "string option \<Rightarrow> string list \<Rightarrow> string list" where
  "pushName name chunks =
     (case name of
        Some s \<Rightarrow> if s \<noteq> [] then chunks @ [''ismim '' @ s] else chunks
      | None \<Rightarrow> chunks)"

definition pushAge :: "jsnum option \<Rightarrow> string list \<Rightarrow> string list" where
  "pushAge age chunks =
     (case age of
        Some a \<Rightarrow> if jsGt a (Num 0) then chunks @ [''yasim '' @ toStringNum a] else chunks
      | None \<Rightarrow> chunks)"

definition pushRelation :: "string option \<Rightarrow> string list \<Rightarrow> string list" where
  "pushRelation rel chunks =
     (case rel of
        Some s \<Rightarrow> if s \<noteq> [] then chunks @ [''medeni durumum '' @ s] else chunks
      | None \<Rightarrow> chunks)"

definition pushEmployment :: "string option \<Rightarrow> string list \<Rightarrow> string list" where
  "pushEmployment emp chunks =
     (case emp of
        Some s \<Rightarrow>
          if s \<noteq> [] then chunks @ [''i'' @ [CHR 0xC5, CHR 0x9F] @ '' durumum '' @ s]
          else chunks
      | None \<Rightarrow> chunks)"

definition buildChunks ::
  "string option \<Rightarrow> jsnum option \<Rightarrow> string option \<Rightarrow> string option \<Rightarrow> string list" where
  "buildChunks name age rel emp =
     pushEmployment emp (pushRelation rel (pushAge age (pushName name [])))"

definition buildPrompt ::
  "string option \<Rightarrow> jsnum option \<Rightarrow> string option \<Rightarrow> string option \<Rightarrow> string" where
  "buildPrompt name age rel emp =
     (let chunks = buildChunks name age rel emp;
          promptText = (if length chunks > 0 then join '', '' chunks @ closingInstruction
                        else fallbackInstruction)
      in if length PROMPT_FINE_TUNE > 0 then promptText @ '' '' @ join '' '' PROMPT_FINE_TUNE
         else promptText)"

definition promptOf :: "world \<Rightarrow> coffee_data \<Rightarrow> string" where
  "promptOf w d =
     buildPrompt (userName d) (calcUserAge w (userBirthday d))
       (userRelationStatus d) (userEmploymentStatus d)"

subsection \<open>Materializing the photos\<close>

text \<open>\<^verbatim>\<open>path.basename\<close> (POSIX): trailing separators are ignored, the last
  segment is returned.\<close>

definition basename :: "string \<Rightarrow> string" where
  "basename p =
     rev (takeWhile (\<lambda>c. c \<noteq> CHR ''/'') (dropWhile (\<lambda>c. c = CHR ''/'') (rev p)))"

text \<open>\<^verbatim>\<open>path.join(os.tmpdir(), `temp_${timestamp}_${baseName}`)\<close>; the temporary
  directory is taken as already normalized.\<close>

definition tempFilePathOf :: "world \<Rightarrow> nat \<Rightarrow> string \<Rightarrow> string" where
  "tempFilePathOf w i photoPath =
     tmpdir w @ ''/'' @ (''temp_'' @ digitsOf (dateNow w i) @ ''_'' @ basename photoPath)"

text \<open>The mutable locals of the \<^verbatim>\<open>try\<close> block the photo loop writes to.\<close>

record loop_state =
  calls :: "effect list"
  contentParts :: "part list"
  tempFiles :: "string list"

text \<open>
  The body of the loop for the photo at position \<open>i\<close>, inside its own
  \<^verbatim>\<open>try/catch\<close>: get the bucket and the file object, name the temporary file,
  download, upload, push the part when the upload answered with a \<^verbatim>\<open>uri\<close> and a
  \<^verbatim>\<open>mimeType\<close>, then push the temporary path. A throw leaves the body at once and is
  only logged. \<^verbatim>\<open>storage.bucket()\<close> throws when there is no default bucket and
  \<^verbatim>\<open>bucket.file(photoPath)\<close> throws on the empty reference (a file name must be
  specified): in both cases the body is left before any download is started.
\<close>

definition processPhoto :: "world \<Rightarrow> nat \<Rightarrow> string \<Rightarrow> loop_state \<Rightarrow> loop_state" where
  "processPhoto w i photoPath st =
     (case storageBucket w of
        Some uploadError \<Rightarrow> st
      | None \<Rightarrow>
          if photoPath = [] then st
          else
            (let tempFilePath = tempFilePathOf w i photoPath in
             case download w i photoPath tempFilePath of
               Some uploadError \<Rightarrow>
                 st\<lparr>calls := calls st @ [StorageDownload photoPath tempFilePath False]\<rparr>
             | None \<Rightarrow>
                 (case upload w i tempFilePath of
                    Inl uploadError \<Rightarrow>
                      st\<lparr>calls := calls st @ [StorageDownload photoPath tempFilePath True,
                                                FilesUpload tempFilePath False]\<rparr>
                  | Inr uploadedFile \<Rightarrow>
                      st\<lparr>calls := calls st @ [StorageDownload photoPath tempFilePath True,
                                                FilesUpload tempFilePath True],
                         contentParts :=
                           (case (uri uploadedFile, mimeType uploadedFile) of
                              (Some u, Some m) \<Rightarrow>
                                if u \<noteq> [] \<and> m \<noteq> [] then contentParts st @ [FilePart u m]
                                else contentParts st
                            | _ \<Rightarrow> contentParts st),
                         tempFiles := tempFiles st @ [tempFilePath]\<rparr>)))"

fun photoLoop :: "world \<Rightarrow> nat \<Rightarrow> string list \<Rightarrow> loop_state \<Rightarrow> loop_state" where
  "photoLoop w i [] st = st"
| "photoLoop w i (photoPath # rest) st = photoLoop w (Suc i) rest (processPhoto w i photoPath st)"

text \<open>\<^verbatim>\<open>if (photoPaths && photoPaths.length > 0) { for (...) ... }\<close>\<close>

definition materialize :: "world \<Rightarrow> string list option \<Rightarrow> loop_state" where
  "materialize w paths =
     (let st0 = \<lparr>calls = [], contentParts = [], tempFiles = []\<rparr> in
      case paths of
        None \<Rightarrow> st0
      | Some ps \<Rightarrow> if length ps > 0 then photoLoop w 0 ps st0 else st0)"

subsection \<open>The handler\<close>

definition completedFields :: "world \<Rightarrow> string \<Rightarrow> string \<Rightarrow> (string \<times> fsval) list" where
  "completedFields w text promptText =
     [(''result'', VStr text),
      (''ai'', VObj [(''promptText'', VStr promptText),
                     (''processedAt'', VStr (toISOString w 0)),
                     (''source'', VStr GEMINI_MODEL)]),
      (''status'', VStr ''completed'')]"

fun errorDetailsOf :: "js_exn \<Rightarrow> string" where
  "errorDetailsOf (JsError message) = message"
| "errorDetailsOf (JsOther s) = s"

definition errorFields :: "world \<Rightarrow> nat \<Rightarrow> js_exn \<Rightarrow> (string \<times> fsval) list" where
  "errorFields w n err =
     [(''result'', VObj [(''error'', VStr ''Failed to process with Gemini AI''),
                         (''errorDetails'', VStr (errorDetailsOf err)),
                         (''processedAt'', VStr (toISOString w n)),
                         (''source'', VStr GEMINI_MODEL)]),
      (''status'', VStr ''error'')]"

text \<open>What the \<^verbatim>\<open>try\<close> block leaves behind: the calls made, \<^verbatim>\<open>tempFiles\<close> as
  it stands, and the value thrown out of the block, if any.\<close>

record try_result =
  tryCalls :: "effect list"
  tryTempFiles :: "string list"
  thrown :: "js_exn option"

definition tryBlock :: "world \<Rightarrow> string \<Rightarrow> coffee_data \<Rightarrow> try_result" where
  "tryBlock w did d =
     (if \<not> truthy (GEMINI_API_KEY w) then
        \<lparr>tryCalls = [], tryTempFiles = [],
         thrown = Some (JsError ''Gemini API key is not configured'')\<rparr>
      else
        (let st = materialize w (photoPaths d);
             promptText = promptOf w d;
             contents = contentParts st @ [TextPart promptText]
         in case generateContent w GEMINI_MODEL contents of
              Inl err \<Rightarrow>
                \<lparr>tryCalls = calls st @ [GenerateContent GEMINI_MODEL contents False],
                 tryTempFiles = tempFiles st, thrown = Some err\<rparr>
            | Inr text \<Rightarrow>
                (let cleaned = calls st @ [GenerateContent GEMINI_MODEL contents True]
                                 @ map UnlinkSync (tempFiles st);
                     upd = completedFields w text promptText
                 in case dbUpdate w 0 did upd of
                      Some err \<Rightarrow>
                        \<lparr>tryCalls = cleaned @ [DocUpdate did upd False],
                         tryTempFiles = tempFiles st, thrown = Some err\<rparr>
                    | None \<Rightarrow>
                        \<lparr>tryCalls = cleaned @ [DocUpdate did upd True],
                         tryTempFiles = tempFiles st, thrown = None\<rparr>)))"

fun isDocUpdate :: "effect \<Rightarrow> bool" where
  "isDocUpdate (DocUpdate _ _ _) = True"
| "isDocUpdate _ = False"

text \<open>The \<^verbatim>\<open>catch\<close> block: delete the temporary files again, then write the error
  payload; a throw of that write leaves the handler.\<close>

definition catchBlock :: "world \<Rightarrow> string \<Rightarrow> try_result \<Rightarrow> js_exn \<Rightarrow> run" where
  "catchBlock w did t err =
     (let n = length (filter isDocUpdate (tryCalls t));
          upd = errorFields w n err;
          before = tryCalls t @ map UnlinkSync (tryTempFiles t)
      in case dbUpdate w n did upd of
           Some err2 \<Rightarrow> \<lparr>effects = before @ [DocUpdate did upd False], rejected = Some err2\<rparr>
         | None \<Rightarrow> \<lparr>effects = before @ [DocUpdate did upd True], rejected = None\<rparr>)"

definition processCoffeeWithGemini :: "world \<Rightarrow> event \<Rightarrow> run" where
  "processCoffeeWithGemini w ev =
     (case data ev of
        None \<Rightarrow> \<lparr>effects = [], rejected = None\<rparr>
      | Some d \<Rightarrow>
          if truthyVal (result d) then \<lparr>effects = [], rejected = None\<rparr>
          else
            (let t = tryBlock w (docId ev) d in
             case thrown t of
               None \<Rightarrow> \<lparr>effects = tryCalls t, rejected = None\<rparr>
             | Some err \<Rightarrow> catchBlock w (docId ev) t err))"

subsection \<open>Reading a run\<close>

text \<open>The datastore document after a run: every accepted update sets its fields.\<close>

type_synonym doc = "string \<Rightarrow> fsval option"

definition applyFields :: "doc \<Rightarrow> (string \<times> fsval) list \<Rightarrow> doc" where
  "applyFields dc fs = foldl (\<lambda>m (k, v). m(k \<mapsto> v)) dc fs"

fun applyEffect :: "doc \<Rightarrow> effect \<Rightarrow> doc" where
  "applyEffect dc (DocUpdate _ fs ok) = (if ok then applyFields dc fs else dc)"
| "applyEffect dc _ = dc"

definition finalDoc :: "doc \<Rightarrow> effect list \<Rightarrow> doc" where
  "finalDoc dc effs = foldl applyEffect dc effs"

text \<open>What a run did, read off its calls: the references whose download was attempted,
  the local files a successful download created, the deletions attempted, the contents of
  the generation requests, and the field lists of the updates the datastore accepted.\<close>

fun downloadOf :: "effect \<Rightarrow> string list" where
  "downloadOf (StorageDownload src _ _) = [src]"
| "downloadOf _ = []"

fun createdOf :: "effect \<Rightarrow> string list" where
  "createdOf (StorageDownload _ dst ok) = (if ok then [dst] else [])"
| "createdOf _ = []"

fun deletionOf :: "effect \<Rightarrow> string list" where
  "deletionOf (UnlinkSync f) = [f]"
| "deletionOf _ = []"

fun requestOf :: "effect \<Rightarrow> part list list" where
  "requestOf (GenerateContent _ parts _) = [parts]"
| "requestOf _ = []"

fun attemptedOf :: "effect \<Rightarrow> (string \<times> fsval) list list" where
  "attemptedOf (DocUpdate _ fs _) = [fs]"
| "attemptedOf _ = []"

fun acceptedOf :: "effect \<Rightarrow> (string \<times> fsval) list list" where
  "acceptedOf (DocUpdate _ fs ok) = (if ok then [fs] else [])"
| "acceptedOf _ = []"

definition downloadSources :: "effect list \<Rightarrow> string list" where
  "downloadSources effs = concat (map downloadOf effs)"

definition createdFiles :: "effect list \<Rightarrow> string list" where
  "createdFiles effs = concat (map createdOf effs)"

definition deletionAttempts :: "effect list \<Rightarrow> string list" where
  "deletionAttempts effs = concat (map deletionOf effs)"

definition generateRequests :: "effect list \<Rightarrow> part list list" where
  "generateRequests effs = concat (map requestOf effs)"

definition attemptedUpdates :: "effect list \<Rightarrow> (string \<times> fsval) list list" where
  "attemptedUpdates effs = concat (map attemptedOf effs)"

definition acceptedUpdates :: "effect list \<Rightarrow> (string \<times> fsval) list list" where
  "acceptedUpdates effs = concat (map acceptedOf effs)"

text \<open>The contents the handler passes to \<^verbatim>\<open>generateContent\<close>.\<close>

definition contentsOf :: "world \<Rightarrow> coffee_data \<Rightarrow> part list" where
  "contentsOf w d = contentParts (materialize w (photoPaths d)) @ [TextPart (promptOf w d)]"

fun isFilePart :: "part \<Rightarrow> bool" where
  "isFilePart (FilePart _ _) = True"
| "isFilePart (TextPart _) = False"

text \<open>The \<^verbatim>\<open>ai.promptText\<close> of an update's field list.\<close>

definition promptTextOf :: "(string \<times> fsval) list \<Rightarrow> string option" where
  "promptTextOf fs =
     (case map_of fs ''ai'' of
        Some (VObj ai) \<Rightarrow>
          (case map_of ai ''promptText'' of Some (VStr p) \<Rightarrow> Some p | _ \<Rightarrow> None)
      | _ \<Rightarrow> None)"

subsection \<open>The specification's notions\<close>

text \<open>
  The normalized attribute set of the specification: every attribute is a meaningful
  value or absent. A name or status is meaningful when it is a non-empty string, an age
  when it is a number greater than zero.
\<close>

definition spec_present :: "string option \<Rightarrow> string option" where
  "spec_present v = (case v of Some s \<Rightarrow> if s = [] then None else Some s | None \<Rightarrow> None)"

definition spec_meaningful_age :: "jsnum option \<Rightarrow> int option" where
  "spec_meaningful_age a = (case a of Some (Num n) \<Rightarrow> if 0 < n then Some n else None | _ \<Rightarrow> None)"

record attributes =
  attrName :: "string option"
  attrAge :: "int option"
  attrRelation :: "string option"
  attrEmployment :: "string option"

definition spec_normalized :: "world \<Rightarrow> coffee_data \<Rightarrow> attributes" where
  "spec_normalized w d =
     \<lparr>attrName = spec_present (userName d),
      attrAge = spec_meaningful_age (calcUserAge w (userBirthday d)),
      attrRelation = spec_present (userRelationStatus d),
      attrEmployment = spec_present (userEmploymentStatus d)\<rparr>"

text \<open>
  The prompt as the specification describes it: one clause per present attribute, a fixed
  phrase followed by the value, in the order name, age, relationship status, employment
  status; the clauses joined by the separator and followed by the closing instruction, or
  the fallback instruction when there is no clause; then the directives.
\<close>

definition spec_clause :: "string \<Rightarrow> string option \<Rightarrow> string list" where
  "spec_clause phrase v = (case v of Some s \<Rightarrow> [phrase @ s] | None \<Rightarrow> [])"

definition spec_clauses :: "attributes \<Rightarrow> string list" where
  "spec_clauses a =
     spec_clause ''ismim '' (attrName a)
     @ spec_clause ''yasim '' (map_option (\<lambda>n. digitsOf (nat n)) (attrAge a))
     @ spec_clause ''medeni durumum '' (attrRelation a)
     @ spec_clause (''i'' @ [CHR 0xC5, CHR 0x9F] @ '' durumum '') (attrEmployment a)"

definition spec_directives :: string where
  "spec_directives = '' '' @ join '' '' PROMPT_FINE_TUNE"

definition spec_prompt :: "attributes \<Rightarrow> string" where
  "spec_prompt a =
     (if spec_clauses a = [] then fallbackInstruction
      else join '', '' (spec_clauses a) @ closingInstruction) @ spec_directives"

text \<open>
  The resolvable subset of an asset list: a reference is resolved when the bucket is
  there, the reference names a file, its download succeeds and its registration answers
  with a handle and a content type. The references are numbered from \<open>i\<close> in list
  order. The references a download is started for are those that name a file, when the
  bucket is there.
\<close>

definition spec_resolve :: "world \<Rightarrow> nat \<Rightarrow> string \<Rightarrow> part option" where
  "spec_resolve w i p =
     (if storageBucket w \<noteq> None \<or> p = [] then None
      else
        (case download w i p (tempFilePathOf w i p) of
           Some e \<Rightarrow> None
         | None \<Rightarrow>
             (case upload w i (tempFilePathOf w i p) of
                Inl e \<Rightarrow> None
              | Inr f \<Rightarrow>
                  (case (uri f, mimeType f) of
                     (Some u, Some m) \<Rightarrow> if u \<noteq> [] \<and> m \<noteq> [] then Some (FilePart u m) else None
                   | _ \<Rightarrow> None))))"

definition spec_attempted :: "world \<Rightarrow> string list \<Rightarrow> string list" where
  "spec_attempted w ps = (if storageBucket w = None then filter (\<lambda>p. p \<noteq> []) ps else [])"

definition spec_resolvable :: "world \<Rightarrow> nat \<Rightarrow> string list \<Rightarrow> part list" where
  "spec_resolvable w i ps = List.map_filter (\<lambda>(j, p). spec_resolve w j p) (enumerate i ps)"

text \<open>The terminal states of a record.\<close>

definition terminal :: "fsval option \<Rightarrow> bool" where
  "terminal s = (s = Some (VStr ''completed'') \<or> s = Some (VStr ''error''))"

subsection \<open>Sample inputs\<close>

text \<open>
  A world with an API key in which the photo \<^verbatim>\<open>coffee-images/missing.jpg\<close> cannot be
  downloaded and the upload in the third iteration fails; everything else succeeds.
  The clock reads 2025-08-28.
\<close>

definition sampleWorld :: world where
  "sampleWorld =
     \<lparr>GEMINI_API_KEY = Some ''key'',
      today = \<lparr>fullYear = 2025, month = 7, date = 28\<rparr>,
      parseDate = (\<lambda>s. if s = ''1990-05-15'' then Some \<lparr>fullYear = 1990, month = 4, date = 15\<rparr>
                        else if s = ''2025-08-29'' then Some \<lparr>fullYear = 2025, month = 7, date = 29\<rparr>
                        else None),
      dateNow = (\<lambda>i. 1756375200000 + i),
      tmpdir = ''/tmp'',
      toISOString = (\<lambda>n. ''2025-08-28T10:00:00.000Z''),
      storageBucket = None,
      download = (\<lambda>i src dst. if src = ''coffee-images/missing.jpg''
                                then Some (JsError ''No such object'') else None),
      upload = (\<lambda>i f. if i = 2 then Inl (JsError ''quota exceeded'')
                       else Inr \<lparr>uri = Some ''files/cup'', mimeType = Some ''image/jpeg''\<rparr>),
      generateContent = (\<lambda>m parts. Inr ''fal''),
      dbUpdate = (\<lambda>n did fs. None)\<rparr>"

definition sampleData :: coffee_data where
  "sampleData =
     \<lparr>userName = Some ''Ahmet'',
      userBirthday = Some ''1990-05-15'',
      userRelationStatus = Some ''evli'',
      userEmploymentStatus = None,
      photoPaths = Some [''coffee-images/cup1.jpg'', ''coffee-images/missing.jpg'',
                         ''coffee-images/cup3.jpg''],
      result = None\<rparr>"

definition sampleEvent :: event where
  "sampleEvent = \<lparr>data = Some sampleData, docId = ''doc1''\<rparr>"

text \<open>The same record once it carries a result.\<close>

definition processedEvent :: event where
  "processedEvent = \<lparr>data = Some (sampleData\<lparr>result := Some (VStr ''fal'')\<rparr>), docId = ''doc1''\<rparr>"

text \<open>The same world without an API key, with a failing generation call, and with a
  datastore that rejects the first update of an invocation.\<close>

definition noKeyWorld :: world where
  "noKeyWorld = sampleWorld\<lparr>GEMINI_API_KEY := None\<rparr>"

definition failingWorld :: world where
  "failingWorld = sampleWorld\<lparr>generateContent := (\<lambda>m parts. Inl (JsError ''503''))\<rparr>"

definition rejectingWorld :: world where
  "rejectingWorld =
     sampleWorld\<lparr>dbUpdate := (\<lambda>n did fs. if n = 0 then Some (JsError ''unavailable'') else None)\<rparr>"

text \<open>A record with one photo, in a world where its download succeeds and its upload
  fails.\<close>

definition leakWorld :: world where
  "leakWorld = sampleWorld\<lparr>upload := (\<lambda>i f. Inl (JsError ''quota exceeded''))\<rparr>"

definition onePhotoEvent :: event where
  "onePhotoEvent =
     \<lparr>data = Some (sampleData\<lparr>photoPaths := Some [''coffee-images/cup1.jpg'']\<rparr>),
      docId = ''doc2''\<rparr>"

text \<open>The sample record with an empty reference before a good one.\<close>

definition emptyRefEvent :: event where
  "emptyRefEvent =
     \<lparr>data = Some (sampleData\<lparr>photoPaths := Some [[], ''coffee-images/cup1.jpg'']\<rparr>),
      docId = ''doc4''\<rparr>"

text \<open>A later day on which the sample record has the same age, with another clock; a
  second record with the same attributes (its employment status is the empty string) and no
  photos; and a record with no attribute at all.\<close>

definition laterWorld :: world where
  "laterWorld =
     sampleWorld\<lparr>today := \<lparr>fullYear = 2026, month = 2, date = 1\<rparr>,
                 dateNow := (\<lambda>i. 1772359200000 + 7 * i),
                 toISOString := (\<lambda>n. ''2026-03-01T10:00:00.000Z'')\<rparr>"

definition otherEvent :: event where
  "otherEvent =
     \<lparr>data = Some (sampleData\<lparr>userEmploymentStatus := Some [], photoPaths := None\<rparr>),
      docId = ''doc3''\<rparr>"

definition anonymousData :: coffee_data where
  "anonymousData =
     \<lparr>userName = None, userBirthday = None, userRelationStatus = None,
      userEmploymentStatus = None, photoPaths = None, result = None\<rparr>"

declare digitsOf.simps [simp del]

section \<open>Auxiliary facts\<close>

subsection \<open>Reading a list of calls\<close>

lemmas reader_defs =
  downloadSources_def createdFiles_def deletionAttempts_def generateRequests_def
  attemptedUpdates_def acceptedUpdates_def

lemma readers_unlink:
  "downloadSources (map UnlinkSync fs) = []"
  "createdFiles (map UnlinkSync fs) = []"
  "deletionAttempts (map UnlinkSync fs) = fs"
  "generateRequests (map UnlinkSync fs) = []"
  "attemptedUpdates (map UnlinkSync fs) = []"
  "acceptedUpdates (map UnlinkSync fs) = []"
  by (induction fs) (simp_all add: reader_defs)

lemma readers_append:
  "downloadSources (xs @ ys) = downloadSources xs @ downloadSources ys"
  "createdFiles (xs @ ys) = createdFiles xs @ createdFiles ys"
  "deletionAttempts (xs @ ys) = deletionAttempts xs @ deletionAttempts ys"
  "generateRequests (xs @ ys) = generateRequests xs @ generateRequests ys"
  "attemptedUpdates (xs @ ys) = attemptedUpdates xs @ attemptedUpdates ys"
  "acceptedUpdates (xs @ ys) = acceptedUpdates xs @ acceptedUpdates ys"
  by (simp_all add: reader_defs)

lemma readers_single:
  "downloadSources [e] = downloadOf e"
  "createdFiles [e] = createdOf e"
  "deletionAttempts [e] = deletionOf e"
  "generateRequests [e] = requestOf e"
  "attemptedUpdates [e] = attemptedOf e"
  "acceptedUpdates [e] = acceptedOf e"
  by (simp_all add: reader_defs)

lemma readers_nil:
  "downloadSources [] = []"
  "createdFiles [] = []"
  "deletionAttempts [] = []"
  "generateRequests [] = []"
  "attemptedUpdates [] = []"
  "acceptedUpdates [] = []"
  by (simp_all add: reader_defs)

lemma readers_cons:
  "downloadSources (e # es) = downloadOf e @ downloadSources es"
  "createdFiles (e # es) = createdOf e @ createdFiles es"
  "deletionAttempts (e # es) = deletionOf e @ deletionAttempts es"
  "generateRequests (e # es) = requestOf e @ generateRequests es"
  "attemptedUpdates (e # es) = attemptedOf e @ attemptedUpdates es"
  "acceptedUpdates (e # es) = acceptedOf e @ acceptedUpdates es"
  by (simp_all add: reader_defs)

lemmas readers = readers_nil readers_cons readers_append readers_unlink

subsection \<open>The photo loop\<close>

lemma processPhoto_contentParts:
  "contentParts (processPhoto w i p st) =
     contentParts st @ (case spec_resolve w i p of Some x \<Rightarrow> [x] | None \<Rightarrow> [])"
  by (simp add: processPhoto_def spec_resolve_def Let_def split: option.splits sum.splits)

lemma processPhoto_calls:
  "downloadSources (calls (processPhoto w i p st)) =
     downloadSources (calls st) @ spec_attempted w [p]"
  "deletionAttempts (calls (processPhoto w i p st)) = deletionAttempts (calls st)"
  "generateRequests (calls (processPhoto w i p st)) = generateRequests (calls st)"
  "attemptedUpdates (calls (processPhoto w i p st)) = attemptedUpdates (calls st)"
  "acceptedUpdates (calls (processPhoto w i p st)) = acceptedUpdates (calls st)"
  by (simp_all add: processPhoto_def spec_attempted_def Let_def readers
               split: option.splits sum.splits)

lemma photoLoop_contentParts:
  "contentParts (photoLoop w i ps st) = contentParts st @ spec_resolvable w i ps"
proof (induction ps arbitrary: i st)
  case Nil
  show ?case by (simp add: spec_resolvable_def List.map_filter_simps)
next
  case (Cons p ps)
  have "spec_resolvable w i (p # ps) =
          (case spec_resolve w i p of Some x \<Rightarrow> [x] | None \<Rightarrow> []) @ spec_resolvable w (Suc i) ps"
    by (simp add: spec_resolvable_def List.map_filter_simps split: option.splits)
  with Cons show ?case by (simp add: processPhoto_contentParts)
qed

lemma photoLoop_calls:
  "downloadSources (calls (photoLoop w i ps st)) =
     downloadSources (calls st) @ spec_attempted w ps"
  "deletionAttempts (calls (photoLoop w i ps st)) = deletionAttempts (calls st)"
  "generateRequests (calls (photoLoop w i ps st)) = generateRequests (calls st)"
  "attemptedUpdates (calls (photoLoop w i ps st)) = attemptedUpdates (calls st)"
  "acceptedUpdates (calls (photoLoop w i ps st)) = acceptedUpdates (calls st)"
  by (induction ps arbitrary: i st) (simp_all add: processPhoto_calls spec_attempted_def)

lemma spec_resolvable_isFilePart: "list_all isFilePart (spec_resolvable w i ps)"
proof (induction ps arbitrary: i)
  case Nil
  show ?case by (simp add: spec_resolvable_def List.map_filter_simps)
next
  case (Cons p ps)
  have "list_all isFilePart (spec_resolvable w (Suc i) ps)" by (rule Cons.IH)
  then show ?case
    by (auto simp: spec_resolvable_def List.map_filter_simps spec_resolve_def
             split: option.splits sum.splits if_splits)
qed

lemma materialize_contentParts:
  "contentParts (materialize w paths) =
     (case paths of None \<Rightarrow> [] | Some ps \<Rightarrow> spec_resolvable w 0 ps)"
  by (simp add: materialize_def Let_def photoLoop_contentParts spec_resolvable_def
                List.map_filter_simps split: option.splits)

lemma materialize_calls:
  "downloadSources (calls (materialize w paths)) =
     (case paths of None \<Rightarrow> [] | Some ps \<Rightarrow> spec_attempted w ps)"
  "deletionAttempts (calls (materialize w paths)) = []"
  "generateRequests (calls (materialize w paths)) = []"
  "attemptedUpdates (calls (materialize w paths)) = []"
  "acceptedUpdates (calls (materialize w paths)) = []"
  by (simp_all add: materialize_def Let_def photoLoop_calls readers spec_attempted_def
               split: option.splits)


subsection \<open>The four ways through the handler\<close>

lemma count_updates: "length (filter isDocUpdate effs) = length (attemptedUpdates effs)"
proof (induction effs)
  case Nil
  show ?case by (simp add: readers)
next
  case (Cons e es)
  then show ?case by (cases e) (simp_all add: readers)
qed

lemma catchBlock_eq:
  "catchBlock w did t err =
     \<lparr>effects = tryCalls t @ map UnlinkSync (tryTempFiles t)
                 @ [DocUpdate did (errorFields w (length (attemptedUpdates (tryCalls t))) err)
                      (dbUpdate w (length (attemptedUpdates (tryCalls t))) did
                         (errorFields w (length (attemptedUpdates (tryCalls t))) err) = None)],
      rejected = dbUpdate w (length (attemptedUpdates (tryCalls t))) did
                   (errorFields w (length (attemptedUpdates (tryCalls t))) err)\<rparr>"
  by (simp add: catchBlock_def Let_def count_updates split: option.splits)

lemma tryBlock_no_key:
  "\<not> truthy (GEMINI_API_KEY w) \<Longrightarrow>
   tryBlock w did d =
     \<lparr>tryCalls = [], tryTempFiles = [],
      thrown = Some (JsError ''Gemini API key is not configured'')\<rparr>"
  by (simp add: tryBlock_def)

lemma tryBlock_generate_fails:
  "truthy (GEMINI_API_KEY w) \<Longrightarrow> generateContent w GEMINI_MODEL (contentsOf w d) = Inl err \<Longrightarrow>
   tryBlock w did d =
     \<lparr>tryCalls = calls (materialize w (photoPaths d))
                   @ [GenerateContent GEMINI_MODEL (contentsOf w d) False],
      tryTempFiles = tempFiles (materialize w (photoPaths d)),
      thrown = Some err\<rparr>"
  by (simp add: tryBlock_def contentsOf_def Let_def)

lemma tryBlock_update_rejected:
  "truthy (GEMINI_API_KEY w) \<Longrightarrow> generateContent w GEMINI_MODEL (contentsOf w d) = Inr text \<Longrightarrow>
   dbUpdate w 0 did (completedFields w text (promptOf w d)) = Some err \<Longrightarrow>
   tryBlock w did d =
     \<lparr>tryCalls = calls (materialize w (photoPaths d))
                   @ [GenerateContent GEMINI_MODEL (contentsOf w d) True]
                   @ map UnlinkSync (tempFiles (materialize w (photoPaths d)))
                   @ [DocUpdate did (completedFields w text (promptOf w d)) False],
      tryTempFiles = tempFiles (materialize w (photoPaths d)),
      thrown = Some err\<rparr>"
  by (simp add: tryBlock_def contentsOf_def Let_def)

lemma tryBlock_success:
  "truthy (GEMINI_API_KEY w) \<Longrightarrow> generateContent w GEMINI_MODEL (contentsOf w d) = Inr text \<Longrightarrow>
   dbUpdate w 0 did (completedFields w text (promptOf w d)) = None \<Longrightarrow>
   tryBlock w did d =
     \<lparr>tryCalls = calls (materialize w (photoPaths d))
                   @ [GenerateContent GEMINI_MODEL (contentsOf w d) True]
                   @ map UnlinkSync (tempFiles (materialize w (photoPaths d)))
                   @ [DocUpdate did (completedFields w text (promptOf w d)) True],
      tryTempFiles = tempFiles (materialize w (photoPaths d)),
      thrown = None\<rparr>"
  by (simp add: tryBlock_def contentsOf_def Let_def)

text \<open>Every run of the \<^verbatim>\<open>try\<close> block is one of the four.\<close>

lemma tryBlock_cases:
  obtains
    (no_key) "\<not> truthy (GEMINI_API_KEY w)"
  | (generate_fails) err where "truthy (GEMINI_API_KEY w)"
      "generateContent w GEMINI_MODEL (contentsOf w d) = Inl err"
  | (update_rejected) answer err where "truthy (GEMINI_API_KEY w)"
      "generateContent w GEMINI_MODEL (contentsOf w d) = Inr answer"
      "dbUpdate w 0 did (completedFields w answer (promptOf w d)) = Some err"
  | (success) answer where "truthy (GEMINI_API_KEY w)"
      "generateContent w GEMINI_MODEL (contentsOf w d) = Inr answer"
      "dbUpdate w 0 did (completedFields w answer (promptOf w d)) = None"
proof (cases "truthy (GEMINI_API_KEY w)")
  case False
  then show ?thesis by (rule no_key)
next
  case key: True
  show ?thesis
  proof (cases "generateContent w GEMINI_MODEL (contentsOf w d)")
    case (Inl err)
    with key show ?thesis by (rule generate_fails)
  next
    case (Inr answer)
    show ?thesis
    proof (cases "dbUpdate w 0 did (completedFields w answer (promptOf w d))")
      case None
      with key Inr show ?thesis by (rule success)
    next
      case (Some err)
      with key Inr show ?thesis by (rule update_rejected)
    qed
  qed
qed

lemma handler_past_guard:
  "data ev = Some d \<Longrightarrow> \<not> truthyVal (result d) \<Longrightarrow>
   processCoffeeWithGemini w ev =
     (case thrown (tryBlock w (docId ev) d) of
        None \<Rightarrow> \<lparr>effects = tryCalls (tryBlock w (docId ev) d), rejected = None\<rparr>
      | Some err \<Rightarrow> catchBlock w (docId ev) (tryBlock w (docId ev) d) err)"
  by (simp add: processCoffeeWithGemini_def Let_def)

subsection \<open>The document after a run\<close>

lemma finalDoc_accepted: "finalDoc dc effs = foldl applyFields dc (acceptedUpdates effs)"
proof (induction effs arbitrary: dc)
  case Nil
  show ?case by (simp add: finalDoc_def readers)
next
  case (Cons e es)
  then show ?case by (cases e) (simp_all add: finalDoc_def readers)
qed

lemma status_completedFields:
  "applyFields dc (completedFields w text p) ''status'' = Some (VStr ''completed'')"
  by (simp add: applyFields_def completedFields_def)

lemma status_errorFields:
  "applyFields dc (errorFields w n err) ''status'' = Some (VStr ''error'')"
  by (simp add: applyFields_def errorFields_def)

text \<open>The accepted updates of a run past the guard: at most one, the completed write
  when the \<^verbatim>\<open>try\<close> block did not throw, the error write otherwise.\<close>

lemma accepted_of_run:
  assumes "data ev = Some d" and "\<not> truthyVal (result d)"
  shows "acceptedUpdates (effects (processCoffeeWithGemini w ev)) =
           (case thrown (tryBlock w (docId ev) d) of
              None \<Rightarrow>
                (case generateContent w GEMINI_MODEL (contentsOf w d) of
                   Inr text \<Rightarrow> [completedFields w text (promptOf w d)]
                 | Inl err \<Rightarrow> [])
            | Some err \<Rightarrow>
                (case rejected (processCoffeeWithGemini w ev) of
                   None \<Rightarrow> [errorFields w (length (attemptedUpdates
                                                    (tryCalls (tryBlock w (docId ev) d)))) err]
                 | Some err2 \<Rightarrow> []))"
proof (cases rule: tryBlock_cases [where w = w and d = d and did = "docId ev"])
  case no_key
  then show ?thesis
    by (simp add: handler_past_guard [OF assms] tryBlock_no_key catchBlock_eq readers
             split: option.splits)
next
  case (generate_fails err)
  then show ?thesis
    by (simp add: handler_past_guard [OF assms] tryBlock_generate_fails catchBlock_eq readers
                  materialize_calls split: option.splits)
next
  case (update_rejected answer err)
  then show ?thesis
    by (simp add: handler_past_guard [OF assms] tryBlock_update_rejected catchBlock_eq readers
                  materialize_calls split: option.splits)
next
  case (success answer)
  then show ?thesis
    by (simp add: handler_past_guard [OF assms] tryBlock_success readers materialize_calls)
qed

text \<open>
  A run whose \<^verbatim>\<open>try\<close> block throws ends with the attempt to write the error
  payload; the handler's promise settles as the datastore answers that write, and when the
  datastore accepts it, it is the only accepted update of the run.
\<close>

lemma failed_run_writes_error:
  assumes "data ev = Some d" and "\<not> truthyVal (result d)"
    and "thrown (tryBlock w (docId ev) d) = Some err"
  shows "\<exists>before.
           attemptedUpdates (effects (processCoffeeWithGemini w ev))
             = before @ [errorFields w (length before) err]
         \<and> rejected (processCoffeeWithGemini w ev)
             = dbUpdate w (length before) (docId ev) (errorFields w (length before) err)
         \<and> (dbUpdate w (length before) (docId ev) (errorFields w (length before) err) = None \<longrightarrow>
              acceptedUpdates (effects (processCoffeeWithGemini w ev))
                = [errorFields w (length before) err])"
proof (cases rule: tryBlock_cases [where w = w and d = d and did = "docId ev"])
  case no_key
  with assms(3) show ?thesis
    by (intro exI [of _ "[]"])
       (simp add: handler_past_guard [OF assms(1,2)] tryBlock_no_key catchBlock_eq readers)
next
  case (generate_fails err')
  with assms(3) show ?thesis
    by (intro exI [of _ "[]"])
       (simp add: handler_past_guard [OF assms(1,2)] tryBlock_generate_fails catchBlock_eq
                  readers materialize_calls)
next
  case (update_rejected answer err')
  with assms(3) show ?thesis
    by (intro exI [of _ "[completedFields w answer (promptOf w d)]"])
       (simp add: handler_past_guard [OF assms(1,2)] tryBlock_update_rejected catchBlock_eq
                  readers materialize_calls)
next
  case (success answer)
  with assms(3) show ?thesis
    by (simp add: tryBlock_success)
qed

text \<open>
  Every run past the guard ends with the attempt of an update. The handler's promise
  settles as the datastore answers that last update; when the datastore accepts it, it is
  the only accepted update and the record is terminal.
\<close>

lemma run_settles:
  assumes "data ev = Some d" and "\<not> truthyVal (result d)"
  shows "\<exists>before u.
           attemptedUpdates (effects (processCoffeeWithGemini w ev)) = before @ [u]
         \<and> rejected (processCoffeeWithGemini w ev) = dbUpdate w (length before) (docId ev) u
         \<and> (dbUpdate w (length before) (docId ev) u = None \<longrightarrow>
              terminal (finalDoc dc (effects (processCoffeeWithGemini w ev)) ''status''))"
proof (cases "thrown (tryBlock w (docId ev) d)")
  case None
  then obtain answer where run: "truthy (GEMINI_API_KEY w)"
      "generateContent w GEMINI_MODEL (contentsOf w d) = Inr answer"
      "dbUpdate w 0 (docId ev) (completedFields w answer (promptOf w d)) = None"
    by (cases rule: tryBlock_cases [where w = w and d = d and did = "docId ev"])
       (simp_all add: tryBlock_no_key tryBlock_generate_fails tryBlock_update_rejected)
  have shape: "processCoffeeWithGemini w ev =
      \<lparr>effects = tryCalls (tryBlock w (docId ev) d), rejected = None\<rparr>"
    using None by (simp add: handler_past_guard [OF assms])
  have accepted: "acceptedUpdates (effects (processCoffeeWithGemini w ev))
      = [completedFields w answer (promptOf w d)]"
    by (simp add: shape tryBlock_success [OF run] readers materialize_calls)
  show ?thesis
  proof (intro exI conjI impI)
    show "attemptedUpdates (effects (processCoffeeWithGemini w ev))
      = [] @ [completedFields w answer (promptOf w d)]"
      by (simp add: shape tryBlock_success [OF run] readers materialize_calls)
    show "rejected (processCoffeeWithGemini w ev)
      = dbUpdate w (length ([] :: (string \<times> fsval) list list)) (docId ev)
          (completedFields w answer (promptOf w d))"
      by (simp add: shape run(3))
    show "terminal (finalDoc dc (effects (processCoffeeWithGemini w ev)) ''status'')"
      by (simp add: finalDoc_accepted accepted status_completedFields terminal_def)
  qed
next
  case (Some err)
  from failed_run_writes_error [OF assms Some] obtain before where b:
      "attemptedUpdates (effects (processCoffeeWithGemini w ev))
         = before @ [errorFields w (length before) err]
       \<and> rejected (processCoffeeWithGemini w ev)
         = dbUpdate w (length before) (docId ev) (errorFields w (length before) err)
       \<and> (dbUpdate w (length before) (docId ev) (errorFields w (length before) err) = None \<longrightarrow>
         acceptedUpdates (effects (processCoffeeWithGemini w ev))
           = [errorFields w (length before) err])" ..
  show ?thesis
  proof (intro exI conjI impI)
    show "attemptedUpdates (effects (processCoffeeWithGemini w ev))
         = before @ [errorFields w (length before) err]"
      by (rule b [THEN conjunct1])
    show "rejected (processCoffeeWithGemini w ev)
         = dbUpdate w (length before) (docId ev) (errorFields w (length before) err)"
      by (rule b [THEN conjunct2, THEN conjunct1])
    assume "dbUpdate w (length before) (docId ev) (errorFields w (length before) err) = None"
    with b [THEN conjunct2, THEN conjunct2]
    have "acceptedUpdates (effects (processCoffeeWithGemini w ev))
           = [errorFields w (length before) err]"
      by (rule mp)
    then show "terminal (finalDoc dc (effects (processCoffeeWithGemini w ev)) ''status'')"
      by (simp add: finalDoc_accepted status_errorFields terminal_def)
  qed
qed

text \<open>The error state of a failed run, and the completed state of a successful one.\<close>

lemma failed_run_error_state:
  assumes "data ev = Some d" and "\<not> truthyVal (result d)"
    and "thrown (tryBlock w (docId ev) d) = Some err"
  shows "\<exists>before.
           attemptedUpdates (effects (processCoffeeWithGemini w ev))
             = before @ [errorFields w (length before) err]
         \<and> rejected (processCoffeeWithGemini w ev)
             = dbUpdate w (length before) (docId ev) (errorFields w (length before) err)
         \<and> (dbUpdate w (length before) (docId ev) (errorFields w (length before) err) = None \<longrightarrow>
              acceptedUpdates (effects (processCoffeeWithGemini w ev))
                = [errorFields w (length before) err]
              \<and> finalDoc dc (effects (processCoffeeWithGemini w ev)) ''status''
                  = Some (VStr ''error''))"
proof -
  from failed_run_writes_error [OF assms] obtain before where b:
      "attemptedUpdates (effects (processCoffeeWithGemini w ev))
         = before @ [errorFields w (length before) err]
       \<and> rejected (processCoffeeWithGemini w ev)
         = dbUpdate w (length before) (docId ev) (errorFields w (length before) err)
       \<and> (dbUpdate w (length before) (docId ev) (errorFields w (length before) err) = None \<longrightarrow>
         acceptedUpdates (effects (processCoffeeWithGemini w ev))
           = [errorFields w (length before) err])" ..
  show ?thesis
  proof (intro exI conjI impI)
    show "attemptedUpdates (effects (processCoffeeWithGemini w ev))
         = before @ [errorFields w (length before) err]"
      by (rule b [THEN conjunct1])
    show "rejected (processCoffeeWithGemini w ev)
         = dbUpdate w (length before) (docId ev) (errorFields w (length before) err)"
      by (rule b [THEN conjunct2, THEN conjunct1])
    assume "dbUpdate w (length before) (docId ev) (errorFields w (length before) err) = None"
    with b [THEN conjunct2, THEN conjunct2]
    show accepted: "acceptedUpdates (effects (processCoffeeWithGemini w ev))
           = [errorFields w (length before) err]"
      by (rule mp)
    then show "finalDoc dc (effects (processCoffeeWithGemini w ev)) ''status''
        = Some (VStr ''error'')"
      by (simp add: finalDoc_accepted status_errorFields)
  qed
qed

lemma run_completes:
  assumes "data ev = Some d" and "\<not> truthyVal (result d)"
    and "truthy (GEMINI_API_KEY w)"
    and "generateContent w GEMINI_MODEL (contentsOf w d) = Inr answer"
    and "dbUpdate w 0 (docId ev) (completedFields w answer (promptOf w d)) = None"
  shows "attemptedUpdates (effects (processCoffeeWithGemini w ev))
           = [completedFields w answer (promptOf w d)]
    \<and> acceptedUpdates (effects (processCoffeeWithGemini w ev))
           = [completedFields w answer (promptOf w d)]
    \<and> rejected (processCoffeeWithGemini w ev) = None
    \<and> finalDoc dc (effects (processCoffeeWithGemini w ev)) ''status''
           = Some (VStr ''completed'')"
  using assms(3-5)
  by (simp add: handler_past_guard [OF assms(1,2)] tryBlock_success finalDoc_accepted readers
                materialize_calls status_completedFields)

text \<open>A run past the guard is a successful run or a run whose \<^verbatim>\<open>try\<close> block
  throws.\<close>

lemma run_succeeds_or_throws:
  "(\<exists>answer. truthy (GEMINI_API_KEY w)
       \<and> generateContent w GEMINI_MODEL (contentsOf w d) = Inr answer
       \<and> dbUpdate w 0 did (completedFields w answer (promptOf w d)) = None)
   \<or> (\<exists>err. thrown (tryBlock w did d) = Some err)"
  by (cases rule: tryBlock_cases [where w = w and d = d and did = did])
     (simp_all add: tryBlock_no_key tryBlock_generate_fails tryBlock_update_rejected)

subsection \<open>The prompt\<close>

lemma push_spec:
  "pushName name cs = cs @ spec_clause ''ismim '' (spec_present name)"
  "pushAge age cs =
     cs @ spec_clause ''yasim '' (map_option (\<lambda>n. digitsOf (nat n)) (spec_meaningful_age age))"
  "pushRelation rel cs = cs @ spec_clause ''medeni durumum '' (spec_present rel)"
  "pushEmployment emp cs =
     cs @ spec_clause (''i'' @ [CHR 0xC5, CHR 0x9F] @ '' durumum '') (spec_present emp)"
  by (simp_all add: pushName_def pushAge_def pushRelation_def pushEmployment_def spec_clause_def
                    spec_present_def spec_meaningful_age_def
               split: option.splits jsnum.splits)

lemma buildChunks_spec:
  "buildChunks name age rel emp =
     spec_clauses \<lparr>attrName = spec_present name, attrAge = spec_meaningful_age age,
                   attrRelation = spec_present rel, attrEmployment = spec_present emp\<rparr>"
  by (simp add: buildChunks_def spec_clauses_def push_spec)

lemma buildPrompt_spec:
  "buildPrompt name age rel emp =
     spec_prompt \<lparr>attrName = spec_present name, attrAge = spec_meaningful_age age,
                  attrRelation = spec_present rel, attrEmployment = spec_present emp\<rparr>"
  by (simp add: buildPrompt_def spec_prompt_def spec_directives_def buildChunks_spec
                PROMPT_FINE_TUNE_def Let_def)

lemma promptOf_spec: "promptOf w d = spec_prompt (spec_normalized w d)"
  by (simp add: promptOf_def spec_normalized_def buildPrompt_spec)

lemma requests_of_run:
  assumes "truthy (GEMINI_API_KEY w)" and "data ev = Some d" and "\<not> truthyVal (result d)"
  shows "generateRequests (effects (processCoffeeWithGemini w ev)) = [contentsOf w d]"
proof (cases rule: tryBlock_cases [where w = w and d = d and did = "docId ev"])
  case no_key
  with assms(1) show ?thesis by simp
next
  case (generate_fails err)
  then show ?thesis
    by (simp add: handler_past_guard [OF assms(2,3)] tryBlock_generate_fails catchBlock_eq
                  readers materialize_calls)
next
  case (update_rejected answer err)
  then show ?thesis
    by (simp add: handler_past_guard [OF assms(2,3)] tryBlock_update_rejected catchBlock_eq
                  readers materialize_calls)
next
  case (success answer)
  then show ?thesis
    by (simp add: handler_past_guard [OF assms(2,3)] tryBlock_success readers materialize_calls)
qed

text \<open>Unfolding a run at a concrete input.\<close>

lemmas run_eval =
  processCoffeeWithGemini_def tryBlock_def catchBlock_def materialize_def processPhoto_def
  tempFilePathOf_def basename_def digitsOf.simps Let_def readers

section \<open>Properties\<close>

subsection \<open>The idempotency guard\<close>

text \<open>
  Claim C1. When the event's record data already carries a non-empty result field, the
  handler returns without any datastore update and without any external call: no storage
  download, no AI upload, no AI generation, no status or result update. Its run has no
  effect at all and its promise resolves.
\<close>

theorem C1_idempotency_guard:
  "data ev = Some d \<Longrightarrow> truthyVal (result d) \<Longrightarrow>
   processCoffeeWithGemini w ev = \<lparr>effects = [], rejected = None\<rparr>"
  by (simp add: processCoffeeWithGemini_def)

theorem C1_idempotency_guard_witness:
  "data processedEvent = Some (sampleData\<lparr>result := Some (VStr ''fal'')\<rparr>)
   \<and> truthyVal (result (sampleData\<lparr>result := Some (VStr ''fal'')\<rparr>))
   \<and> processCoffeeWithGemini sampleWorld processedEvent = \<lparr>effects = [], rejected = None\<rparr>"
  using C1_idempotency_guard
          [of processedEvent "sampleData\<lparr>result := Some (VStr ''fal'')\<rparr>" sampleWorld]
  by (simp add: processedEvent_def)

subsection \<open>Degraded asset handling\<close>

text \<open>
  Claim C2. Whatever references of the asset list fail to download, to be staged or to be
  registered, a download is started for every reference of the list that names a file, in
  order (a failure is caught at its reference and the loop goes on; the empty reference
  fails before any download), the model is called exactly once, with the parts of the
  resolvable references in list order followed by the prompt (the prompt alone when none
  resolves), and the run ends with the attempt of an update; the handler settles as the
  datastore answers that update, and when the datastore accepts it the record is in a
  terminal state. Asset failures alone never lead to the error state: if the generation
  succeeds and the datastore accepts the write, the handler returns and the record ends
  \<^verbatim>\<open>completed\<close>.
\<close>

theorem C2_degraded_assets:
  assumes "truthy (GEMINI_API_KEY w)" and "data ev = Some d" and "\<not> truthyVal (result d)"
    and "photoPaths d = Some ps"
  shows "downloadSources (effects (processCoffeeWithGemini w ev)) = spec_attempted w ps
    \<and> generateRequests (effects (processCoffeeWithGemini w ev)) =
          [spec_resolvable w 0 ps @ [TextPart (promptOf w d)]]
    \<and> (\<exists>before u.
           attemptedUpdates (effects (processCoffeeWithGemini w ev)) = before @ [u]
         \<and> rejected (processCoffeeWithGemini w ev) = dbUpdate w (length before) (docId ev) u
         \<and> (dbUpdate w (length before) (docId ev) u = None \<longrightarrow>
              terminal (finalDoc dc (effects (processCoffeeWithGemini w ev)) ''status'')))
    \<and> (generateContent w GEMINI_MODEL (spec_resolvable w 0 ps @ [TextPart (promptOf w d)])
            = Inr answer
          \<and> dbUpdate w 0 (docId ev) (completedFields w answer (promptOf w d)) = None \<longrightarrow>
          rejected (processCoffeeWithGemini w ev) = None
          \<and> finalDoc dc (effects (processCoffeeWithGemini w ev)) ''status''
              = Some (VStr ''completed''))"
proof -
  let ?r = "processCoffeeWithGemini w ev"
  have contents: "contentsOf w d = spec_resolvable w 0 ps @ [TextPart (promptOf w d)]"
    using assms(4) by (simp add: contentsOf_def materialize_contentParts)
  have calls: "downloadSources (effects ?r) = spec_attempted w ps
      \<and> generateRequests (effects ?r) = [contentsOf w d]"
  proof (cases rule: tryBlock_cases [where w = w and d = d and did = "docId ev"])
    case no_key
    with assms(1) show ?thesis by simp
  next
    case (generate_fails err)
    then show ?thesis
      using assms(4)
      by (simp add: handler_past_guard [OF assms(2,3)] tryBlock_generate_fails catchBlock_eq
                    readers materialize_calls)
  next
    case (update_rejected answer err)
    then show ?thesis
      using assms(4)
      by (simp add: handler_past_guard [OF assms(2,3)] tryBlock_update_rejected catchBlock_eq
                    readers materialize_calls)
  next
    case (success answer)
    then show ?thesis
      using assms(4)
      by (simp add: handler_past_guard [OF assms(2,3)] tryBlock_success readers
                    materialize_calls)
  qed
  have completes: "rejected ?r = None
      \<and> finalDoc dc (effects ?r) ''status'' = Some (VStr ''completed'')"
    if "generateContent w GEMINI_MODEL (contentsOf w d) = Inr answer"
      and "dbUpdate w 0 (docId ev) (completedFields w answer (promptOf w d)) = None"
    using that assms(1)
    by (simp add: handler_past_guard [OF assms(2,3)] tryBlock_success finalDoc_accepted readers
                  materialize_calls status_completedFields)
  from calls completes run_settles [OF assms(2,3), of w dc] show ?thesis
    by (simp add: contents)
qed

theorem C2_degraded_assets_witness:
  "truthy (GEMINI_API_KEY sampleWorld)
   \<and> data sampleEvent = Some sampleData
   \<and> \<not> truthyVal (result sampleData)
   \<and> photoPaths sampleData =
        Some [''coffee-images/cup1.jpg'', ''coffee-images/missing.jpg'', ''coffee-images/cup3.jpg'']
   \<and> spec_resolvable sampleWorld 0
        [''coffee-images/cup1.jpg'', ''coffee-images/missing.jpg'', ''coffee-images/cup3.jpg'']
        = [FilePart ''files/cup'' ''image/jpeg'']
   \<and> downloadSources (effects (processCoffeeWithGemini sampleWorld sampleEvent)) =
        [''coffee-images/cup1.jpg'', ''coffee-images/missing.jpg'', ''coffee-images/cup3.jpg'']
   \<and> generateRequests (effects (processCoffeeWithGemini sampleWorld sampleEvent)) =
        [[FilePart ''files/cup'' ''image/jpeg'', TextPart (promptOf sampleWorld sampleData)]]
   \<and> rejected (processCoffeeWithGemini sampleWorld sampleEvent) = None
   \<and> finalDoc Map.empty (effects (processCoffeeWithGemini sampleWorld sampleEvent)) ''status''
        = Some (VStr ''completed'')
   \<and> data emptyRefEvent
        = Some (sampleData\<lparr>photoPaths := Some [[], ''coffee-images/cup1.jpg'']\<rparr>)
   \<and> downloadSources (effects (processCoffeeWithGemini sampleWorld emptyRefEvent))
        = [''coffee-images/cup1.jpg'']
   \<and> truthy (GEMINI_API_KEY failingWorld)
   \<and> generateRequests (effects (processCoffeeWithGemini failingWorld sampleEvent)) =
        [[FilePart ''files/cup'' ''image/jpeg'', TextPart (promptOf failingWorld sampleData)]]
   \<and> attemptedUpdates (effects (processCoffeeWithGemini failingWorld sampleEvent))
        = [errorFields failingWorld 0 (JsError ''503'')]
   \<and> dbUpdate failingWorld 0 (docId sampleEvent) (errorFields failingWorld 0 (JsError ''503''))
        = None
   \<and> rejected (processCoffeeWithGemini failingWorld sampleEvent) = None
   \<and> finalDoc Map.empty (effects (processCoffeeWithGemini failingWorld sampleEvent)) ''status''
        = Some (VStr ''error'')"
proof -
  have key: "truthy (GEMINI_API_KEY sampleWorld)" "truthy (GEMINI_API_KEY failingWorld)"
    by (simp_all add: sampleWorld_def failingWorld_def)
  have dat: "data sampleEvent = Some sampleData"
    by (simp add: sampleEvent_def)
  have dat': "data emptyRefEvent
      = Some (sampleData\<lparr>photoPaths := Some [[], ''coffee-images/cup1.jpg'']\<rparr>)"
    by (simp add: emptyRefEvent_def)
  have guard: "\<not> truthyVal (result sampleData)"
      "\<not> truthyVal (result (sampleData\<lparr>photoPaths := Some [[], ''coffee-images/cup1.jpg'']\<rparr>))"
    by (simp_all add: sampleData_def)
  have paths: "photoPaths sampleData =
      Some [''coffee-images/cup1.jpg'', ''coffee-images/missing.jpg'', ''coffee-images/cup3.jpg'']"
      "photoPaths (sampleData\<lparr>photoPaths := Some [[], ''coffee-images/cup1.jpg'']\<rparr>)
         = Some [[], ''coffee-images/cup1.jpg'']"
    by (simp_all add: sampleData_def)
  have res: "spec_resolvable sampleWorld 0
        [''coffee-images/cup1.jpg'', ''coffee-images/missing.jpg'', ''coffee-images/cup3.jpg'']
        = [FilePart ''files/cup'' ''image/jpeg'']"
      "spec_resolvable failingWorld 0
        [''coffee-images/cup1.jpg'', ''coffee-images/missing.jpg'', ''coffee-images/cup3.jpg'']
        = [FilePart ''files/cup'' ''image/jpeg'']"
    by (simp_all add: spec_resolvable_def spec_resolve_def sampleWorld_def failingWorld_def
                      enumerate_eq_zip List.map_filter_simps upt_rec)
  have att: "spec_attempted sampleWorld
        [''coffee-images/cup1.jpg'', ''coffee-images/missing.jpg'', ''coffee-images/cup3.jpg'']
        = [''coffee-images/cup1.jpg'', ''coffee-images/missing.jpg'', ''coffee-images/cup3.jpg'']"
      "spec_attempted sampleWorld [[], ''coffee-images/cup1.jpg''] = [''coffee-images/cup1.jpg'']"
    by (simp_all add: spec_attempted_def sampleWorld_def)
  have gen: "generateContent sampleWorld m parts = Inr ''fal''" for m parts
    by (simp add: sampleWorld_def)
  have upd: "dbUpdate sampleWorld n did fs = None" "dbUpdate failingWorld n did fs = None"
    for n did fs
    by (simp_all add: sampleWorld_def failingWorld_def)
  have fails: "generateContent failingWorld m parts = Inl (JsError ''503'')" for m parts
    by (simp add: failingWorld_def)
  have failing: "attemptedUpdates (effects (processCoffeeWithGemini failingWorld sampleEvent))
        = [errorFields failingWorld 0 (JsError ''503'')]"
      "rejected (processCoffeeWithGemini failingWorld sampleEvent) = None"
      "finalDoc Map.empty (effects (processCoffeeWithGemini failingWorld sampleEvent)) ''status''
        = Some (VStr ''error'')"
    by (simp_all add: handler_past_guard [OF dat guard(1)]
                      tryBlock_generate_fails [OF key(2) fails] catchBlock_eq readers
                      materialize_calls finalDoc_accepted status_errorFields upd)
  show ?thesis
    using C2_degraded_assets [OF key(1) dat guard(1) paths(1), of Map.empty "''fal''"]
      C2_degraded_assets [OF key(1) dat' guard(2) paths(2), of Map.empty "''fal''"]
      C2_degraded_assets [OF key(2) dat guard(1) paths(1), of Map.empty "''fal''"]
      key dat dat' guard paths res att gen upd failing
    by simp
qed

subsection \<open>The terminal write\<close>

text \<open>
  Claim C3. For every invocation that passes the idempotency check. A successful run (the
  key is there, the generation answers, the datastore accepts the write) makes one single
  update, which sets \<^verbatim>\<open>result\<close> to the generated text, \<^verbatim>\<open>ai\<close> to the prompt
  text, the \<^verbatim>\<open>toISOString()\<close> reading of the clock and the model identifier, and
  \<^verbatim>\<open>status\<close> to \<^verbatim>\<open>completed\<close>. A run whose \<^verbatim>\<open>try\<close> block throws ends
  with the attempt of one update that sets \<^verbatim>\<open>result\<close> to the error payload (fixed
  category, detail of the thrown value, clock reading, model identifier) and
  \<^verbatim>\<open>status\<close> to \<^verbatim>\<open>error\<close>; the handler settles as the datastore answers that
  write, and when the datastore accepts it, it is the only accepted update and the record
  has status \<^verbatim>\<open>error\<close>. Every run is of one of these two kinds. No update the handler
  attempts carries another status than \<^verbatim>\<open>completed\<close> or \<^verbatim>\<open>error\<close> (none writes
  \<^verbatim>\<open>processing\<close>), every run ends with the attempt of an update, and when the
  datastore accepts that last update the record is in a terminal state.
\<close>

theorem C3_terminal_write:
  assumes "data ev = Some d" and "\<not> truthyVal (result d)"
  shows "(truthy (GEMINI_API_KEY w)
          \<and> generateContent w GEMINI_MODEL (contentsOf w d) = Inr answer
          \<and> dbUpdate w 0 (docId ev) (completedFields w answer (promptOf w d)) = None \<longrightarrow>
            attemptedUpdates (effects (processCoffeeWithGemini w ev)) =
              [[(''result'', VStr answer),
                (''ai'', VObj [(''promptText'', VStr (promptOf w d)),
                               (''processedAt'', VStr (toISOString w 0)),
                               (''source'', VStr ''gemini-2.5-flash'')]),
                (''status'', VStr ''completed'')]]
            \<and> acceptedUpdates (effects (processCoffeeWithGemini w ev))
                = attemptedUpdates (effects (processCoffeeWithGemini w ev))
            \<and> rejected (processCoffeeWithGemini w ev) = None)
    \<and> (thrown (tryBlock w (docId ev) d) = Some err \<longrightarrow>
          (\<exists>before.
             attemptedUpdates (effects (processCoffeeWithGemini w ev))
               = before @ [errorFields w (length before) err]
           \<and> rejected (processCoffeeWithGemini w ev)
               = dbUpdate w (length before) (docId ev) (errorFields w (length before) err)
           \<and> (dbUpdate w (length before) (docId ev) (errorFields w (length before) err) = None \<longrightarrow>
                acceptedUpdates (effects (processCoffeeWithGemini w ev))
                  = [errorFields w (length before) err]
                \<and> finalDoc dc (effects (processCoffeeWithGemini w ev)) ''status''
                    = Some (VStr ''error''))))
    \<and> errorFields w n err =
          [(''result'', VObj [(''error'', VStr ''Failed to process with Gemini AI''),
                              (''errorDetails'', VStr (errorDetailsOf err)),
                              (''processedAt'', VStr (toISOString w n)),
                              (''source'', VStr ''gemini-2.5-flash'')]),
           (''status'', VStr ''error'')]
    \<and> ((\<exists>answer. truthy (GEMINI_API_KEY w)
            \<and> generateContent w GEMINI_MODEL (contentsOf w d) = Inr answer
            \<and> dbUpdate w 0 (docId ev) (completedFields w answer (promptOf w d)) = None)
         \<or> (\<exists>err. thrown (tryBlock w (docId ev) d) = Some err))
    \<and> list_all (\<lambda>fs. terminal (map_of fs ''status''))
          (attemptedUpdates (effects (processCoffeeWithGemini w ev)))
    \<and> (\<exists>before u.
           attemptedUpdates (effects (processCoffeeWithGemini w ev)) = before @ [u]
         \<and> rejected (processCoffeeWithGemini w ev) = dbUpdate w (length before) (docId ev) u
         \<and> (dbUpdate w (length before) (docId ev) u = None \<longrightarrow>
              terminal (finalDoc dc (effects (processCoffeeWithGemini w ev)) ''status'')))"
    (is "?success \<and> ?failure \<and> ?payload \<and> ?cover \<and> ?attempts \<and> ?settles")
proof -
  let ?r = "processCoffeeWithGemini w ev"
  have success: ?success
    using run_completes [OF assms, of w answer dc]
    by (simp add: completedFields_def GEMINI_MODEL_def)
  have failure: ?failure
    using failed_run_error_state [OF assms, of w err dc] by (intro impI)
  have payload: ?payload
    by (simp add: errorFields_def GEMINI_MODEL_def)
  have cover: ?cover
    by (rule run_succeeds_or_throws)
  have attempts: ?attempts
  proof (cases rule: tryBlock_cases [where w = w and d = d and did = "docId ev"])
    case no_key
    then show ?thesis
      by (simp add: handler_past_guard [OF assms] tryBlock_no_key catchBlock_eq readers
                    errorFields_def terminal_def)
  next
    case (generate_fails err)
    then show ?thesis
      by (simp add: handler_past_guard [OF assms] tryBlock_generate_fails catchBlock_eq readers
                    materialize_calls errorFields_def terminal_def)
  next
    case (update_rejected answer err)
    then show ?thesis
      by (simp add: handler_past_guard [OF assms] tryBlock_update_rejected catchBlock_eq readers
                    materialize_calls errorFields_def completedFields_def terminal_def)
  next
    case (success answer)
    then show ?thesis
      by (simp add: handler_past_guard [OF assms] tryBlock_success readers materialize_calls
                    completedFields_def terminal_def)
  qed
  have settles: ?settles
    by (rule run_settles [OF assms])
  from success failure payload cover attempts settles show ?thesis
    by (intro conjI)
qed

theorem C3_terminal_write_witness:
  "data sampleEvent = Some sampleData
   \<and> \<not> truthyVal (result sampleData)
   \<and> truthy (GEMINI_API_KEY sampleWorld)
   \<and> generateContent sampleWorld GEMINI_MODEL (contentsOf sampleWorld sampleData) = Inr ''fal''
   \<and> dbUpdate sampleWorld 0 (docId sampleEvent)
        (completedFields sampleWorld ''fal'' (promptOf sampleWorld sampleData)) = None
   \<and> attemptedUpdates (effects (processCoffeeWithGemini sampleWorld sampleEvent)) =
        [[(''result'', VStr ''fal''),
          (''ai'', VObj [(''promptText'', VStr (promptOf sampleWorld sampleData)),
                         (''processedAt'', VStr ''2025-08-28T10:00:00.000Z''),
                         (''source'', VStr ''gemini-2.5-flash'')]),
          (''status'', VStr ''completed'')]]
   \<and> acceptedUpdates (effects (processCoffeeWithGemini sampleWorld sampleEvent))
        = attemptedUpdates (effects (processCoffeeWithGemini sampleWorld sampleEvent))
   \<and> rejected (processCoffeeWithGemini sampleWorld sampleEvent) = None
   \<and> thrown (tryBlock failingWorld (docId sampleEvent) sampleData) = Some (JsError ''503'')
   \<and> attemptedUpdates (effects (processCoffeeWithGemini failingWorld sampleEvent)) =
        [[(''result'', VObj [(''error'', VStr ''Failed to process with Gemini AI''),
                             (''errorDetails'', VStr ''503''),
                             (''processedAt'', VStr ''2025-08-28T10:00:00.000Z''),
                             (''source'', VStr ''gemini-2.5-flash'')]),
          (''status'', VStr ''error'')]]
   \<and> dbUpdate failingWorld 0 (docId sampleEvent) (errorFields failingWorld 0 (JsError ''503''))
        = None
   \<and> acceptedUpdates (effects (processCoffeeWithGemini failingWorld sampleEvent))
        = attemptedUpdates (effects (processCoffeeWithGemini failingWorld sampleEvent))
   \<and> rejected (processCoffeeWithGemini failingWorld sampleEvent) = None
   \<and> finalDoc Map.empty (effects (processCoffeeWithGemini failingWorld sampleEvent)) ''status''
        = Some (VStr ''error'')
   \<and> thrown (tryBlock rejectingWorld (docId sampleEvent) sampleData)
        = Some (JsError ''unavailable'')
   \<and> attemptedUpdates (effects (processCoffeeWithGemini rejectingWorld sampleEvent)) =
        [completedFields rejectingWorld ''fal'' (promptOf rejectingWorld sampleData),
         errorFields rejectingWorld 1 (JsError ''unavailable'')]
   \<and> dbUpdate rejectingWorld 1 (docId sampleEvent)
        (errorFields rejectingWorld 1 (JsError ''unavailable'')) = None
   \<and> acceptedUpdates (effects (processCoffeeWithGemini rejectingWorld sampleEvent))
        = [errorFields rejectingWorld 1 (JsError ''unavailable'')]
   \<and> rejected (processCoffeeWithGemini rejectingWorld sampleEvent) = None
   \<and> finalDoc Map.empty (effects (processCoffeeWithGemini rejectingWorld sampleEvent)) ''status''
        = Some (VStr ''error'')"
proof -
  have dat: "data sampleEvent = Some sampleData"
    by (simp add: sampleEvent_def)
  have guard: "\<not> truthyVal (result sampleData)"
    by (simp add: sampleData_def)
  have key: "truthy (GEMINI_API_KEY sampleWorld)" "truthy (GEMINI_API_KEY failingWorld)"
      "truthy (GEMINI_API_KEY rejectingWorld)"
    by (simp_all add: sampleWorld_def failingWorld_def rejectingWorld_def)
  have gen: "generateContent sampleWorld m parts = Inr ''fal''"
      "generateContent failingWorld m parts = Inl (JsError ''503'')"
      "generateContent rejectingWorld m parts = Inr ''fal''" for m parts
    by (simp_all add: sampleWorld_def failingWorld_def rejectingWorld_def)
  have upd: "dbUpdate sampleWorld n did fs = None" "dbUpdate failingWorld n did fs = None"
      "dbUpdate rejectingWorld 0 did fs = Some (JsError ''unavailable'')"
      "dbUpdate rejectingWorld 1 did fs = None"
      "dbUpdate rejectingWorld (Suc 0) did fs = None" for n did fs
    by (simp_all add: sampleWorld_def failingWorld_def rejectingWorld_def)
  have clock: "toISOString sampleWorld n = ''2025-08-28T10:00:00.000Z''"
      "toISOString failingWorld n = ''2025-08-28T10:00:00.000Z''" for n
    by (simp_all add: sampleWorld_def failingWorld_def)
  have bad: "thrown (tryBlock failingWorld (docId sampleEvent) sampleData) = Some (JsError ''503'')"
    by (simp add: tryBlock_generate_fails [OF key(2) gen(2)])
  have worse: "thrown (tryBlock rejectingWorld (docId sampleEvent) sampleData)
      = Some (JsError ''unavailable'')"
    by (simp add: tryBlock_update_rejected [OF key(3) gen(3) upd(3)])
  have failing: "attemptedUpdates (effects (processCoffeeWithGemini failingWorld sampleEvent))
        = [errorFields failingWorld 0 (JsError ''503'')]"
      "acceptedUpdates (effects (processCoffeeWithGemini failingWorld sampleEvent))
        = [errorFields failingWorld 0 (JsError ''503'')]"
      "rejected (processCoffeeWithGemini failingWorld sampleEvent) = None"
    by (simp_all add: handler_past_guard [OF dat guard]
                      tryBlock_generate_fails [OF key(2) gen(2)] catchBlock_eq readers
                      materialize_calls upd)
  have rejecting: "attemptedUpdates (effects (processCoffeeWithGemini rejectingWorld sampleEvent))
        = [completedFields rejectingWorld ''fal'' (promptOf rejectingWorld sampleData),
           errorFields rejectingWorld 1 (JsError ''unavailable'')]"
      "acceptedUpdates (effects (processCoffeeWithGemini rejectingWorld sampleEvent))
        = [errorFields rejectingWorld 1 (JsError ''unavailable'')]"
      "rejected (processCoffeeWithGemini rejectingWorld sampleEvent) = None"
    by (simp_all add: handler_past_guard [OF dat guard]
                      tryBlock_update_rejected [OF key(3) gen(3) upd(3)] catchBlock_eq readers
                      materialize_calls upd)
  have states: "finalDoc Map.empty (effects (processCoffeeWithGemini failingWorld sampleEvent))
        ''status'' = Some (VStr ''error'')"
      "finalDoc Map.empty (effects (processCoffeeWithGemini rejectingWorld sampleEvent))
        ''status'' = Some (VStr ''error'')"
    by (simp_all add: finalDoc_accepted failing rejecting status_errorFields)
  have payload: "errorFields failingWorld 0 (JsError ''503'') =
        [(''result'', VObj [(''error'', VStr ''Failed to process with Gemini AI''),
                             (''errorDetails'', VStr ''503''),
                             (''processedAt'', VStr ''2025-08-28T10:00:00.000Z''),
                             (''source'', VStr ''gemini-2.5-flash'')]),
          (''status'', VStr ''error'')]"
    by (simp add: errorFields_def GEMINI_MODEL_def clock)
  from C3_terminal_write [OF dat guard, of sampleWorld "''fal''" "JsError ''503''" Map.empty 0]
  have good: "attemptedUpdates (effects (processCoffeeWithGemini sampleWorld sampleEvent)) =
        [[(''result'', VStr ''fal''),
          (''ai'', VObj [(''promptText'', VStr (promptOf sampleWorld sampleData)),
                         (''processedAt'', VStr ''2025-08-28T10:00:00.000Z''),
                         (''source'', VStr ''gemini-2.5-flash'')]),
          (''status'', VStr ''completed'')]]
      \<and> acceptedUpdates (effects (processCoffeeWithGemini sampleWorld sampleEvent))
        = attemptedUpdates (effects (processCoffeeWithGemini sampleWorld sampleEvent))
      \<and> rejected (processCoffeeWithGemini sampleWorld sampleEvent) = None"
    by (simp add: key gen upd clock)
  show ?thesis
    by (simp add: dat guard key gen upd bad worse failing rejecting states payload good)
qed

subsection \<open>Cleanup of the temporary files\<close>

text \<open>
  Claim C4 says that an invocation that created N temporary files attempts exactly N
  deletions, once, whatever its outcome. The handler records a temporary path only after
  the upload of the file has returned. With one photo whose download succeeds and whose
  upload throws, the run below completes the record, one local file has been created and
  no deletion is attempted. And when the datastore rejects the completed write, the
  \<^verbatim>\<open>catch\<close> block runs the cleanup a second time: one file created, two deletion
  attempts on it.
\<close>

theorem C4_cleanup_incomplete:
  "effects (processCoffeeWithGemini leakWorld onePhotoEvent) =
     [StorageDownload ''coffee-images/cup1.jpg'' ''/tmp/temp_1756375200000_cup1.jpg'' True,
      FilesUpload ''/tmp/temp_1756375200000_cup1.jpg'' False,
      GenerateContent ''gemini-2.5-flash'' [TextPart (promptOf sampleWorld sampleData)] True,
      DocUpdate ''doc2''
        [(''result'', VStr ''fal''),
         (''ai'', VObj [(''promptText'', VStr (promptOf sampleWorld sampleData)),
                        (''processedAt'', VStr ''2025-08-28T10:00:00.000Z''),
                        (''source'', VStr ''gemini-2.5-flash'')]),
         (''status'', VStr ''completed'')]
        True]
   \<and> createdFiles (effects (processCoffeeWithGemini leakWorld onePhotoEvent))
       = [''/tmp/temp_1756375200000_cup1.jpg'']
   \<and> deletionAttempts (effects (processCoffeeWithGemini leakWorld onePhotoEvent)) = []
   \<and> effects (processCoffeeWithGemini rejectingWorld onePhotoEvent) =
       [StorageDownload ''coffee-images/cup1.jpg'' ''/tmp/temp_1756375200000_cup1.jpg'' True,
        FilesUpload ''/tmp/temp_1756375200000_cup1.jpg'' True,
        GenerateContent ''gemini-2.5-flash''
          [FilePart ''files/cup'' ''image/jpeg'', TextPart (promptOf sampleWorld sampleData)] True,
        UnlinkSync ''/tmp/temp_1756375200000_cup1.jpg'',
        DocUpdate ''doc2''
          [(''result'', VStr ''fal''),
           (''ai'', VObj [(''promptText'', VStr (promptOf sampleWorld sampleData)),
                          (''processedAt'', VStr ''2025-08-28T10:00:00.000Z''),
                          (''source'', VStr ''gemini-2.5-flash'')]),
           (''status'', VStr ''completed'')]
          False,
        UnlinkSync ''/tmp/temp_1756375200000_cup1.jpg'',
        DocUpdate ''doc2''
          [(''result'', VObj [(''error'', VStr ''Failed to process with Gemini AI''),
                              (''errorDetails'', VStr ''unavailable''),
                              (''processedAt'', VStr ''2025-08-28T10:00:00.000Z''),
                              (''source'', VStr ''gemini-2.5-flash'')]),
           (''status'', VStr ''error'')]
          True]
   \<and> createdFiles (effects (processCoffeeWithGemini rejectingWorld onePhotoEvent))
       = [''/tmp/temp_1756375200000_cup1.jpg'']
   \<and> deletionAttempts (effects (processCoffeeWithGemini rejectingWorld onePhotoEvent))
       = [''/tmp/temp_1756375200000_cup1.jpg'', ''/tmp/temp_1756375200000_cup1.jpg'']"
proof -
  have leak: "effects (processCoffeeWithGemini leakWorld onePhotoEvent) =
     [StorageDownload ''coffee-images/cup1.jpg'' ''/tmp/temp_1756375200000_cup1.jpg'' True,
      FilesUpload ''/tmp/temp_1756375200000_cup1.jpg'' False,
      GenerateContent ''gemini-2.5-flash'' [TextPart (promptOf sampleWorld sampleData)] True,
      DocUpdate ''doc2''
        [(''result'', VStr ''fal''),
         (''ai'', VObj [(''promptText'', VStr (promptOf sampleWorld sampleData)),
                        (''processedAt'', VStr ''2025-08-28T10:00:00.000Z''),
                        (''source'', VStr ''gemini-2.5-flash'')]),
         (''status'', VStr ''completed'')]
        True]"
    by (simp add: run_eval promptOf_def calcUserAge_def completedFields_def GEMINI_MODEL_def
                  leakWorld_def sampleWorld_def onePhotoEvent_def sampleData_def)
  have twice: "effects (processCoffeeWithGemini rejectingWorld onePhotoEvent) =
       [StorageDownload ''coffee-images/cup1.jpg'' ''/tmp/temp_1756375200000_cup1.jpg'' True,
        FilesUpload ''/tmp/temp_1756375200000_cup1.jpg'' True,
        GenerateContent ''gemini-2.5-flash''
          [FilePart ''files/cup'' ''image/jpeg'', TextPart (promptOf sampleWorld sampleData)] True,
        UnlinkSync ''/tmp/temp_1756375200000_cup1.jpg'',
        DocUpdate ''doc2''
          [(''result'', VStr ''fal''),
           (''ai'', VObj [(''promptText'', VStr (promptOf sampleWorld sampleData)),
                          (''processedAt'', VStr ''2025-08-28T10:00:00.000Z''),
                          (''source'', VStr ''gemini-2.5-flash'')]),
           (''status'', VStr ''completed'')]
          False,
        UnlinkSync ''/tmp/temp_1756375200000_cup1.jpg'',
        DocUpdate ''doc2''
          [(''result'', VObj [(''error'', VStr ''Failed to process with Gemini AI''),
                              (''errorDetails'', VStr ''unavailable''),
                              (''processedAt'', VStr ''2025-08-28T10:00:00.000Z''),
                              (''source'', VStr ''gemini-2.5-flash'')]),
           (''status'', VStr ''error'')]
          True]"
    by (simp add: run_eval promptOf_def calcUserAge_def completedFields_def errorFields_def
                  GEMINI_MODEL_def rejectingWorld_def sampleWorld_def onePhotoEvent_def
                  sampleData_def)
  show ?thesis
    unfolding leak twice by (simp add: readers)
qed

subsection \<open>Age derivation\<close>

text \<open>
  Claim C5. For a birthday that parses (a non-empty string), the computed age is the
  difference of the years, less one exactly when (month, day) of today precedes (month,
  day) of the birthday in the lexicographic order. With today 2025-08-28 the birthday
  1990-05-15 gives 35 and the birthday 2025-08-29 gives -1; an age of zero or less puts no
  age clause in the prompt. (Months count from 0, as \<^verbatim>\<open>getMonth()\<close> does.)
\<close>

theorem C5_age_derivation:
  "(parseDate w s = Some b \<and> s \<noteq> [] \<longrightarrow>
      calcUserAge w (Some s) =
        Some (Num (fullYear (today w) - fullYear b
                   - (if (month (today w), date (today w)) < (month b, date b) then 1 else 0))))
   \<and> (today w = \<lparr>fullYear = 2025, month = 7, date = 28\<rparr>
        \<and> parseDate w ''1990-05-15'' = Some \<lparr>fullYear = 1990, month = 4, date = 15\<rparr> \<longrightarrow>
      calcUserAge w (Some ''1990-05-15'') = Some (Num 35))
   \<and> (today w = \<lparr>fullYear = 2025, month = 7, date = 28\<rparr>
        \<and> parseDate w ''2025-08-29'' = Some \<lparr>fullYear = 2025, month = 7, date = 29\<rparr> \<longrightarrow>
      calcUserAge w (Some ''2025-08-29'') = Some (Num (- 1)))
   \<and> (a \<le> 0 \<longrightarrow>
      buildPrompt name (Some (Num a)) rel emp = buildPrompt name None rel emp)"
proof -
  have general: "calcUserAge w (Some s) =
        Some (Num (fullYear (today w) - fullYear b
                   - (if (month (today w), date (today w)) < (month b, date b) then 1 else 0)))"
    if "parseDate w s = Some b" and "s \<noteq> []" for s b
    using that by (auto simp: calcUserAge_def Let_def)
  have excluded: "buildPrompt name (Some (Num a)) rel emp = buildPrompt name None rel emp"
    if "a \<le> 0"
    using that by (simp add: buildPrompt_def buildChunks_def pushAge_def)
  from general [of "''1990-05-15''"] general [of "''2025-08-29''"] general [of s b] excluded
  show ?thesis by simp
qed

theorem C5_age_derivation_witness:
  "parseDate sampleWorld ''1990-05-15'' = Some \<lparr>fullYear = 1990, month = 4, date = 15\<rparr>
   \<and> ''1990-05-15'' \<noteq> []
   \<and> today sampleWorld = \<lparr>fullYear = 2025, month = 7, date = 28\<rparr>
   \<and> calcUserAge sampleWorld (Some ''1990-05-15'') = Some (Num 35)
   \<and> parseDate sampleWorld ''2025-08-29'' = Some \<lparr>fullYear = 2025, month = 7, date = 29\<rparr>
   \<and> calcUserAge sampleWorld (Some ''2025-08-29'') = Some (Num (- 1))
   \<and> (- 1 :: int) \<le> 0
   \<and> buildPrompt (Some ''Ahmet'') (Some (Num (- 1))) None None
        = buildPrompt (Some ''Ahmet'') None None None"
proof -
  have p1: "parseDate sampleWorld ''1990-05-15'' = Some \<lparr>fullYear = 1990, month = 4, date = 15\<rparr>"
    by (simp add: sampleWorld_def)
  have p2: "parseDate sampleWorld ''2025-08-29'' = Some \<lparr>fullYear = 2025, month = 7, date = 29\<rparr>"
    by (simp add: sampleWorld_def)
  have t: "today sampleWorld = \<lparr>fullYear = 2025, month = 7, date = 28\<rparr>"
    by (simp add: sampleWorld_def)
  show ?thesis
    using C5_age_derivation [of sampleWorld "''1990-05-15''"
        "\<lparr>fullYear = 1990, month = 4, date = 15\<rparr>" "- 1" "Some ''Ahmet''" None None]
      p1 p2 t
    by simp
qed

subsection \<open>A birthday that does not parse\<close>

text \<open>
  Claim C6. When the birthday string does not parse as a date, no meaningful age results
  and the chunks carry no age clause; the whole run is the run of the same record without
  a birthday, so nothing is raised on account of the birthday. Past the guard the run ends
  with the attempt of an update; the handler settles as the datastore answers that update,
  and when the datastore accepts it the record is in a terminal state. When moreover the
  key is there, the generation answers and the datastore accepts the write, the handler
  returns and the record ends \<^verbatim>\<open>completed\<close>.
\<close>

theorem C6_unparseable_birthday:
  assumes "parseDate w s = None"
  shows "spec_meaningful_age (calcUserAge w (Some s)) = None
    \<and> buildChunks name (calcUserAge w (Some s)) rel emp = buildChunks name None rel emp
    \<and> processCoffeeWithGemini w \<lparr>data = Some (d\<lparr>userBirthday := Some s\<rparr>), docId = did\<rparr>
        = processCoffeeWithGemini w \<lparr>data = Some (d\<lparr>userBirthday := None\<rparr>), docId = did\<rparr>
    \<and> (\<not> truthyVal (result d) \<longrightarrow>
          (\<exists>before u.
             attemptedUpdates (effects (processCoffeeWithGemini w
                 \<lparr>data = Some (d\<lparr>userBirthday := Some s\<rparr>), docId = did\<rparr>)) = before @ [u]
           \<and> rejected (processCoffeeWithGemini w
                 \<lparr>data = Some (d\<lparr>userBirthday := Some s\<rparr>), docId = did\<rparr>)
               = dbUpdate w (length before) did u
           \<and> (dbUpdate w (length before) did u = None \<longrightarrow>
                terminal (finalDoc dc
                  (effects (processCoffeeWithGemini w
                     \<lparr>data = Some (d\<lparr>userBirthday := Some s\<rparr>), docId = did\<rparr>)) ''status''))))
    \<and> (\<not> truthyVal (result d) \<and> truthy (GEMINI_API_KEY w)
         \<and> generateContent w GEMINI_MODEL (contentsOf w (d\<lparr>userBirthday := Some s\<rparr>)) = Inr answer
         \<and> dbUpdate w 0 did
              (completedFields w answer (promptOf w (d\<lparr>userBirthday := Some s\<rparr>))) = None \<longrightarrow>
          rejected (processCoffeeWithGemini w
              \<lparr>data = Some (d\<lparr>userBirthday := Some s\<rparr>), docId = did\<rparr>) = None
          \<and> finalDoc dc
               (effects (processCoffeeWithGemini w
                  \<lparr>data = Some (d\<lparr>userBirthday := Some s\<rparr>), docId = did\<rparr>)) ''status''
              = Some (VStr ''completed''))"
    (is "?absent \<and> ?chunks \<and> ?same \<and> ?settles \<and> ?completes")
proof -
  let ?ev = "\<lparr>data = Some (d\<lparr>userBirthday := Some s\<rparr>), docId = did\<rparr>"
  have age: "calcUserAge w (Some s) = None \<or> calcUserAge w (Some s) = Some NaN"
    using assms by (simp add: calcUserAge_def Let_def)
  then have absent: ?absent
    by (auto simp: spec_meaningful_age_def)
  have chunks: "buildChunks name (calcUserAge w (Some s)) rel emp = buildChunks name None rel emp"
    for name rel emp
    using absent by (simp add: buildChunks_spec spec_meaningful_age_def)
  have prompt: "promptOf w (d\<lparr>userBirthday := Some s\<rparr>) = promptOf w (d\<lparr>userBirthday := None\<rparr>)"
    using chunks by (simp add: promptOf_def buildPrompt_def calcUserAge_def)
  have same: ?same
    by (simp add: processCoffeeWithGemini_def tryBlock_def Let_def prompt
             split: option.splits sum.splits)
  have dat: "data ?ev = Some (d\<lparr>userBirthday := Some s\<rparr>)"
    by simp
  have settles: ?settles
  proof (intro impI)
    assume "\<not> truthyVal (result d)"
    then have guard: "\<not> truthyVal (result (d\<lparr>userBirthday := Some s\<rparr>))"
      by simp
    from run_settles [OF dat guard, of w dc]
    show "\<exists>before u.
             attemptedUpdates (effects (processCoffeeWithGemini w ?ev)) = before @ [u]
           \<and> rejected (processCoffeeWithGemini w ?ev) = dbUpdate w (length before) did u
           \<and> (dbUpdate w (length before) did u = None \<longrightarrow>
                terminal (finalDoc dc (effects (processCoffeeWithGemini w ?ev)) ''status''))"
      by simp
  qed
  have completes: ?completes
  proof (intro impI)
    assume h: "\<not> truthyVal (result d) \<and> truthy (GEMINI_API_KEY w)
         \<and> generateContent w GEMINI_MODEL (contentsOf w (d\<lparr>userBirthday := Some s\<rparr>)) = Inr answer
         \<and> dbUpdate w 0 did
              (completedFields w answer (promptOf w (d\<lparr>userBirthday := Some s\<rparr>))) = None"
    then have guard: "\<not> truthyVal (result (d\<lparr>userBirthday := Some s\<rparr>))"
      by simp
    from h have upd: "dbUpdate w 0 (docId ?ev)
        (completedFields w answer (promptOf w (d\<lparr>userBirthday := Some s\<rparr>))) = None"
      by simp
    from run_completes [OF dat guard h [THEN conjunct2, THEN conjunct1]
        h [THEN conjunct2, THEN conjunct2, THEN conjunct1] upd, of dc]
    show "rejected (processCoffeeWithGemini w ?ev) = None
          \<and> finalDoc dc (effects (processCoffeeWithGemini w ?ev)) ''status''
              = Some (VStr ''completed'')"
      by simp
  qed
  from absent chunks same settles completes show ?thesis
    by (intro conjI)
qed

theorem C6_unparseable_birthday_witness:
  "parseDate sampleWorld ''yesterday'' = None
   \<and> parseDate failingWorld ''yesterday'' = None
   \<and> calcUserAge sampleWorld (Some ''yesterday'') = Some NaN
   \<and> spec_meaningful_age (calcUserAge sampleWorld (Some ''yesterday'')) = None
   \<and> buildChunks (Some ''Ahmet'') (calcUserAge sampleWorld (Some ''yesterday'')) None None
        = [''ismim Ahmet'']
   \<and> processCoffeeWithGemini sampleWorld
        \<lparr>data = Some (sampleData\<lparr>userBirthday := Some ''yesterday''\<rparr>), docId = ''doc1''\<rparr>
        = processCoffeeWithGemini sampleWorld
            \<lparr>data = Some (sampleData\<lparr>userBirthday := None\<rparr>), docId = ''doc1''\<rparr>
   \<and> \<not> truthyVal (result sampleData)
   \<and> truthy (GEMINI_API_KEY sampleWorld)
   \<and> generateContent sampleWorld GEMINI_MODEL
        (contentsOf sampleWorld (sampleData\<lparr>userBirthday := Some ''yesterday''\<rparr>)) = Inr ''fal''
   \<and> dbUpdate sampleWorld 0 ''doc1''
        (completedFields sampleWorld ''fal''
           (promptOf sampleWorld (sampleData\<lparr>userBirthday := Some ''yesterday''\<rparr>))) = None
   \<and> rejected (processCoffeeWithGemini sampleWorld
        \<lparr>data = Some (sampleData\<lparr>userBirthday := Some ''yesterday''\<rparr>), docId = ''doc1''\<rparr>) = None
   \<and> finalDoc Map.empty
        (effects (processCoffeeWithGemini sampleWorld
           \<lparr>data = Some (sampleData\<lparr>userBirthday := Some ''yesterday''\<rparr>), docId = ''doc1''\<rparr>))
        ''status'' = Some (VStr ''completed'')
   \<and> attemptedUpdates (effects (processCoffeeWithGemini failingWorld
        \<lparr>data = Some (sampleData\<lparr>userBirthday := Some ''yesterday''\<rparr>), docId = ''doc1''\<rparr>))
        = [errorFields failingWorld 0 (JsError ''503'')]
   \<and> dbUpdate failingWorld 0 ''doc1'' (errorFields failingWorld 0 (JsError ''503'')) = None
   \<and> rejected (processCoffeeWithGemini failingWorld
        \<lparr>data = Some (sampleData\<lparr>userBirthday := Some ''yesterday''\<rparr>), docId = ''doc1''\<rparr>) = None
   \<and> finalDoc Map.empty
        (effects (processCoffeeWithGemini failingWorld
           \<lparr>data = Some (sampleData\<lparr>userBirthday := Some ''yesterday''\<rparr>), docId = ''doc1''\<rparr>))
        ''status'' = Some (VStr ''error'')"
proof -
  let ?d = "sampleData\<lparr>userBirthday := Some ''yesterday''\<rparr>"
  let ?ev = "\<lparr>data = Some ?d, docId = ''doc1''\<rparr>"
  have p: "parseDate sampleWorld ''yesterday'' = None" "parseDate failingWorld ''yesterday'' = None"
    by (simp_all add: sampleWorld_def failingWorld_def)
  have a: "calcUserAge sampleWorld (Some ''yesterday'') = Some NaN"
    by (simp add: calcUserAge_def Let_def sampleWorld_def)
  have c: "buildChunks (Some ''Ahmet'') None None None = [''ismim Ahmet'']"
    by (simp add: buildChunks_def pushName_def pushAge_def pushRelation_def pushEmployment_def)
  have dat: "data ?ev = Some ?d"
    by simp
  have guard: "\<not> truthyVal (result sampleData)" "\<not> truthyVal (result ?d)"
    by (simp_all add: sampleData_def)
  have key: "truthy (GEMINI_API_KEY sampleWorld)" "truthy (GEMINI_API_KEY failingWorld)"
    by (simp_all add: sampleWorld_def failingWorld_def)
  have gen: "generateContent sampleWorld m parts = Inr ''fal''"
      "generateContent failingWorld m parts = Inl (JsError ''503'')" for m parts
    by (simp_all add: sampleWorld_def failingWorld_def)
  have upd: "dbUpdate sampleWorld n did fs = None" "dbUpdate failingWorld n did fs = None"
    for n did fs
    by (simp_all add: sampleWorld_def failingWorld_def)
  have failing: "attemptedUpdates (effects (processCoffeeWithGemini failingWorld ?ev))
        = [errorFields failingWorld 0 (JsError ''503'')]"
      "rejected (processCoffeeWithGemini failingWorld ?ev) = None"
      "finalDoc Map.empty (effects (processCoffeeWithGemini failingWorld ?ev)) ''status''
        = Some (VStr ''error'')"
    by (simp_all add: handler_past_guard [OF dat guard(2)]
                      tryBlock_generate_fails [OF key(2) gen(2)] catchBlock_eq readers
                      materialize_calls finalDoc_accepted status_errorFields upd)
  note inst = C6_unparseable_birthday [OF p(1), of "Some ''Ahmet''" None None sampleData "''doc1''"
        Map.empty "''fal''"]
  have absent: "spec_meaningful_age (calcUserAge sampleWorld (Some ''yesterday'')) = None"
    by (rule inst [THEN conjunct1])
  have chunks: "buildChunks (Some ''Ahmet'') (calcUserAge sampleWorld (Some ''yesterday'')) None None
        = [''ismim Ahmet'']"
    using inst [THEN conjunct2, THEN conjunct1] c by simp
  have same: "processCoffeeWithGemini sampleWorld ?ev
          = processCoffeeWithGemini sampleWorld
              \<lparr>data = Some (sampleData\<lparr>userBirthday := None\<rparr>), docId = ''doc1''\<rparr>"
    by (rule inst [THEN conjunct2, THEN conjunct2, THEN conjunct1])
  have g: "generateContent sampleWorld GEMINI_MODEL (contentsOf sampleWorld ?d) = Inr ''fal''"
    by (rule gen(1))
  have u: "dbUpdate sampleWorld 0 ''doc1''
        (completedFields sampleWorld ''fal'' (promptOf sampleWorld ?d)) = None"
    by (rule upd(1))
  have u': "dbUpdate failingWorld 0 ''doc1'' (errorFields failingWorld 0 (JsError ''503'')) = None"
    by (rule upd(2))
  from guard(1) key(1) g u
  have h: "\<not> truthyVal (result sampleData) \<and> truthy (GEMINI_API_KEY sampleWorld)
      \<and> generateContent sampleWorld GEMINI_MODEL (contentsOf sampleWorld ?d) = Inr ''fal''
      \<and> dbUpdate sampleWorld 0 ''doc1''
           (completedFields sampleWorld ''fal'' (promptOf sampleWorld ?d)) = None"
    by (intro conjI)
  from inst [THEN conjunct2, THEN conjunct2, THEN conjunct2, THEN conjunct2] h
  have good: "rejected (processCoffeeWithGemini sampleWorld ?ev) = None
      \<and> finalDoc Map.empty (effects (processCoffeeWithGemini sampleWorld ?ev)) ''status''
          = Some (VStr ''completed'')"
    by (rule mp)
  from p a absent chunks same guard(1) key(1) g u good [THEN conjunct1] good [THEN conjunct2]
    failing(1) u' failing(2) failing(3)
  show ?thesis
    by (intro conjI)
qed

subsection \<open>Prompt composition\<close>

text \<open>
  Claim C7. The prompt the handler composes is the prompt of the specification for the
  normalized attributes: one fixed-phrase clause per present attribute in the order name,
  age, relationship status, employment status, joined by the separator, then the closing
  instruction, then the directives; with no attribute present it is the fallback
  instruction followed by the same directives.
\<close>

theorem C7_prompt_composition:
  "promptOf w d = spec_prompt (spec_normalized w d)
   \<and> (spec_normalized w d =
         \<lparr>attrName = None, attrAge = None, attrRelation = None, attrEmployment = None\<rparr> \<longrightarrow>
       promptOf w d =
         ''Kahve fal'' @ [CHR 0xC4, CHR 0xB1] @ ''m'' @ [CHR 0xC4, CHR 0xB1] @ '' yorumla. Dil T''
           @ [CHR 0xC3, CHR 0xBC] @ ''rk'' @ [CHR 0xC3, CHR 0xA7] @ ''e olsun.'')"
  by (simp add: promptOf_spec spec_prompt_def spec_clauses_def spec_clause_def
                spec_directives_def fallbackInstruction_def PROMPT_FINE_TUNE_def)

theorem C7_prompt_composition_witness:
  "spec_normalized sampleWorld sampleData =
     \<lparr>attrName = Some ''Ahmet'', attrAge = Some 35, attrRelation = Some ''evli'',
      attrEmployment = None\<rparr>
   \<and> promptOf sampleWorld sampleData =
       ''ismim Ahmet, yasim 35, medeni durumum evli kahve fal'' @ [CHR 0xC4, CHR 0xB1] @ ''m''
         @ [CHR 0xC4, CHR 0xB1] @ '' yorumla. Dil T'' @ [CHR 0xC3, CHR 0xBC] @ ''rk''
         @ [CHR 0xC3, CHR 0xA7] @ ''e olsun.''
   \<and> spec_normalized sampleWorld anonymousData =
       \<lparr>attrName = None, attrAge = None, attrRelation = None, attrEmployment = None\<rparr>
   \<and> promptOf sampleWorld anonymousData =
       ''Kahve fal'' @ [CHR 0xC4, CHR 0xB1] @ ''m'' @ [CHR 0xC4, CHR 0xB1] @ '' yorumla. Dil T''
         @ [CHR 0xC3, CHR 0xBC] @ ''rk'' @ [CHR 0xC3, CHR 0xA7] @ ''e olsun.''"
proof -
  have n1: "spec_normalized sampleWorld sampleData =
     \<lparr>attrName = Some ''Ahmet'', attrAge = Some 35, attrRelation = Some ''evli'',
      attrEmployment = None\<rparr>"
    by (simp add: spec_normalized_def spec_present_def spec_meaningful_age_def calcUserAge_def
                  Let_def sampleWorld_def sampleData_def)
  have n2: "spec_normalized sampleWorld anonymousData =
       \<lparr>attrName = None, attrAge = None, attrRelation = None, attrEmployment = None\<rparr>"
    by (simp add: spec_normalized_def spec_present_def spec_meaningful_age_def calcUserAge_def
                  anonymousData_def)
  have d35: "digitsOf 35 = ''35''"
    by (simp add: digitsOf.simps)
  show ?thesis
    using C7_prompt_composition [of sampleWorld sampleData]
      C7_prompt_composition [of sampleWorld anonymousData] n1 n2
    by (simp add: spec_prompt_def spec_clauses_def spec_clause_def spec_directives_def
                  closingInstruction_def fallbackInstruction_def PROMPT_FINE_TUNE_def d35)
qed

subsection \<open>Prompt determinism\<close>

text \<open>
  Claim C8. Two records with the same normalized attributes get the same prompt text,
  byte for byte, in whatever worlds they are processed: the clocks, the document ids, the
  photos and the answers of the external services have no influence on it. In particular
  the text parts sent to the model in two such runs are equal.
\<close>

theorem C8_prompt_determinism:
  assumes "spec_normalized w1 d1 = spec_normalized w2 d2"
  shows "promptOf w1 d1 = promptOf w2 d2
    \<and> (truthy (GEMINI_API_KEY w1) \<and> data ev1 = Some d1 \<and> \<not> truthyVal (result d1)
         \<and> truthy (GEMINI_API_KEY w2) \<and> data ev2 = Some d2 \<and> \<not> truthyVal (result d2) \<longrightarrow>
        map last (generateRequests (effects (processCoffeeWithGemini w1 ev1)))
          = map last (generateRequests (effects (processCoffeeWithGemini w2 ev2))))"
  using assms by (simp add: promptOf_spec requests_of_run contentsOf_def)

theorem C8_prompt_determinism_witness:
  "spec_normalized sampleWorld sampleData
     = spec_normalized laterWorld (sampleData\<lparr>userEmploymentStatus := Some [], photoPaths := None\<rparr>)
   \<and> toISOString sampleWorld 0 \<noteq> toISOString laterWorld 0
   \<and> promptOf sampleWorld sampleData
       = promptOf laterWorld (sampleData\<lparr>userEmploymentStatus := Some [], photoPaths := None\<rparr>)
   \<and> truthy (GEMINI_API_KEY sampleWorld) \<and> data sampleEvent = Some sampleData
   \<and> \<not> truthyVal (result sampleData)
   \<and> truthy (GEMINI_API_KEY laterWorld)
   \<and> data otherEvent = Some (sampleData\<lparr>userEmploymentStatus := Some [], photoPaths := None\<rparr>)
   \<and> \<not> truthyVal (result (sampleData\<lparr>userEmploymentStatus := Some [], photoPaths := None\<rparr>))
   \<and> map last (generateRequests (effects (processCoffeeWithGemini sampleWorld sampleEvent)))
       = map last (generateRequests (effects (processCoffeeWithGemini laterWorld otherEvent)))"
proof -
  have n: "spec_normalized sampleWorld sampleData
     = spec_normalized laterWorld (sampleData\<lparr>userEmploymentStatus := Some [], photoPaths := None\<rparr>)"
    by (simp add: spec_normalized_def spec_present_def spec_meaningful_age_def calcUserAge_def
                  Let_def sampleWorld_def laterWorld_def sampleData_def)
  have clocks: "toISOString sampleWorld 0 \<noteq> toISOString laterWorld 0"
    by (simp add: sampleWorld_def laterWorld_def)
  have facts: "truthy (GEMINI_API_KEY sampleWorld)" "data sampleEvent = Some sampleData"
      "\<not> truthyVal (result sampleData)" "truthy (GEMINI_API_KEY laterWorld)"
      "data otherEvent = Some (sampleData\<lparr>userEmploymentStatus := Some [], photoPaths := None\<rparr>)"
      "\<not> truthyVal (result (sampleData\<lparr>userEmploymentStatus := Some [], photoPaths := None\<rparr>))"
    by (simp_all add: sampleWorld_def laterWorld_def sampleEvent_def otherEvent_def sampleData_def)
  show ?thesis
    using C8_prompt_determinism [OF n, of sampleEvent otherEvent] n clocks facts
    by simp
qed

subsection \<open>A missing API key\<close>

text \<open>
  Claim C9. Without an API key in the environment, an invocation that passes the
  idempotency check makes no external call: its only effect is the update that sets
  \<^verbatim>\<open>status\<close> to \<^verbatim>\<open>error\<close> and \<^verbatim>\<open>result\<close> to the error payload with
  the category \<^verbatim>\<open>Failed to process with Gemini AI\<close> and the detail
  \<^verbatim>\<open>Gemini API key is not configured\<close>. When the handler returns, the record
  carries that status and payload.
\<close>

theorem C9_missing_api_key:
  assumes "data ev = Some d" and "\<not> truthyVal (result d)" and "\<not> truthy (GEMINI_API_KEY w)"
  shows "effects (processCoffeeWithGemini w ev) =
           [DocUpdate (docId ev)
              [(''result'', VObj [(''error'', VStr ''Failed to process with Gemini AI''),
                                  (''errorDetails'', VStr ''Gemini API key is not configured''),
                                  (''processedAt'', VStr (toISOString w 0)),
                                  (''source'', VStr ''gemini-2.5-flash'')]),
               (''status'', VStr ''error'')]
              (rejected (processCoffeeWithGemini w ev) = None)]
    \<and> (rejected (processCoffeeWithGemini w ev) = None \<longrightarrow>
          finalDoc dc (effects (processCoffeeWithGemini w ev)) ''status'' = Some (VStr ''error'')
          \<and> finalDoc dc (effects (processCoffeeWithGemini w ev)) ''result'' =
              Some (VObj [(''error'', VStr ''Failed to process with Gemini AI''),
                          (''errorDetails'', VStr ''Gemini API key is not configured''),
                          (''processedAt'', VStr (toISOString w 0)),
                          (''source'', VStr ''gemini-2.5-flash'')]))"
  using assms(3)
  by (simp add: handler_past_guard [OF assms(1,2)] tryBlock_no_key catchBlock_eq readers
                errorFields_def GEMINI_MODEL_def finalDoc_def applyFields_def)

theorem C9_missing_api_key_witness:
  "data sampleEvent = Some sampleData
   \<and> \<not> truthyVal (result sampleData)
   \<and> \<not> truthy (GEMINI_API_KEY noKeyWorld)
   \<and> effects (processCoffeeWithGemini noKeyWorld sampleEvent) =
        [DocUpdate ''doc1''
           [(''result'', VObj [(''error'', VStr ''Failed to process with Gemini AI''),
                               (''errorDetails'', VStr ''Gemini API key is not configured''),
                               (''processedAt'', VStr ''2025-08-28T10:00:00.000Z''),
                               (''source'', VStr ''gemini-2.5-flash'')]),
            (''status'', VStr ''error'')]
           True]
   \<and> rejected (processCoffeeWithGemini noKeyWorld sampleEvent) = None
   \<and> finalDoc Map.empty (effects (processCoffeeWithGemini noKeyWorld sampleEvent)) ''status''
        = Some (VStr ''error'')"
proof -
  have dat: "data sampleEvent = Some sampleData"
    by (simp add: sampleEvent_def)
  have guard: "\<not> truthyVal (result sampleData)"
    by (simp add: sampleData_def)
  have key: "\<not> truthy (GEMINI_API_KEY noKeyWorld)"
    by (simp add: noKeyWorld_def)
  have run: "processCoffeeWithGemini noKeyWorld sampleEvent =
      \<lparr>effects =
         [DocUpdate ''doc1''
            [(''result'', VObj [(''error'', VStr ''Failed to process with Gemini AI''),
                                (''errorDetails'', VStr ''Gemini API key is not configured''),
                                (''processedAt'', VStr ''2025-08-28T10:00:00.000Z''),
                                (''source'', VStr ''gemini-2.5-flash'')]),
             (''status'', VStr ''error'')]
            True],
       rejected = None\<rparr>"
    by (simp add: processCoffeeWithGemini_def tryBlock_def catchBlock_def Let_def errorFields_def
                  GEMINI_MODEL_def noKeyWorld_def sampleWorld_def sampleEvent_def sampleData_def)
  have did: "docId sampleEvent = ''doc1''"
    by (simp add: sampleEvent_def)
  have clock: "toISOString noKeyWorld n = ''2025-08-28T10:00:00.000Z''" for n
    by (simp add: noKeyWorld_def sampleWorld_def)
  have res: "rejected (processCoffeeWithGemini noKeyWorld sampleEvent) = None"
    by (simp add: run)
  show ?thesis
    using C9_missing_api_key [OF dat guard key, of Map.empty] dat guard key did clock res
    by auto
qed

subsection \<open>The prompt sent and the prompt stored\<close>

text \<open>
  Claim C10. On a successful run the model is called once; the last of the content parts
  is the text part with the prompt, all parts before it are file parts of materialized
  assets, and the \<^verbatim>\<open>ai.promptText\<close> of the accepted update is that same text.
\<close>

theorem C10_prompt_sent_is_prompt_stored:
  assumes "data ev = Some d" and "\<not> truthyVal (result d)"
    and "thrown (tryBlock w (docId ev) d) = None"
  shows "generateRequests (effects (processCoffeeWithGemini w ev)) = [contentsOf w d]
    \<and> last (contentsOf w d) = TextPart (promptOf w d)
    \<and> list_all isFilePart (butlast (contentsOf w d))
    \<and> map promptTextOf (acceptedUpdates (effects (processCoffeeWithGemini w ev)))
        = [Some (promptOf w d)]"
proof -
  from assms(3) obtain answer where run:
      "truthy (GEMINI_API_KEY w)" "generateContent w GEMINI_MODEL (contentsOf w d) = Inr answer"
      "dbUpdate w 0 (docId ev) (completedFields w answer (promptOf w d)) = None"
    by (cases rule: tryBlock_cases [where w = w and d = d and did = "docId ev"])
       (simp_all add: tryBlock_no_key tryBlock_generate_fails tryBlock_update_rejected)
  have sent: "generateRequests (effects (processCoffeeWithGemini w ev)) = [contentsOf w d]"
    using run
    by (simp add: handler_past_guard [OF assms(1,2)] tryBlock_success readers materialize_calls)
  have stored: "acceptedUpdates (effects (processCoffeeWithGemini w ev))
      = [completedFields w answer (promptOf w d)]"
    using run assms(3) by (simp add: accepted_of_run [OF assms(1,2)])
  have assets: "list_all isFilePart (contentParts (materialize w (photoPaths d)))"
    by (simp add: materialize_contentParts spec_resolvable_isFilePart split: option.splits)
  from sent stored assets show ?thesis
    by (simp add: contentsOf_def promptTextOf_def completedFields_def)
qed

theorem C10_prompt_sent_is_prompt_stored_witness:
  "data sampleEvent = Some sampleData
   \<and> \<not> truthyVal (result sampleData)
   \<and> thrown (tryBlock sampleWorld (docId sampleEvent) sampleData) = None
   \<and> contentsOf sampleWorld sampleData =
        [FilePart ''files/cup'' ''image/jpeg'', TextPart (promptOf sampleWorld sampleData)]
   \<and> generateRequests (effects (processCoffeeWithGemini sampleWorld sampleEvent)) =
        [[FilePart ''files/cup'' ''image/jpeg'', TextPart (promptOf sampleWorld sampleData)]]
   \<and> map promptTextOf (acceptedUpdates (effects (processCoffeeWithGemini sampleWorld sampleEvent)))
        = [Some (promptOf sampleWorld sampleData)]"
proof -
  have dat: "data sampleEvent = Some sampleData"
    by (simp add: sampleEvent_def)
  have guard: "\<not> truthyVal (result sampleData)"
    by (simp add: sampleData_def)
  have ok: "thrown (tryBlock sampleWorld (docId sampleEvent) sampleData) = None"
    by (simp add: tryBlock_def Let_def sampleWorld_def)
  have parts: "contentParts (materialize sampleWorld (photoPaths sampleData)) =
      [FilePart ''files/cup'' ''image/jpeg'']"
    by (simp add: materialize_def processPhoto_def Let_def sampleWorld_def sampleData_def)
  show ?thesis
    using C10_prompt_sent_is_prompt_stored [OF dat guard ok] dat guard ok parts
    by (simp add: contentsOf_def)
qed

end
